theory Spec2Isabelle
  imports Complex_Main
begin

section \<open>JavaScript numbers and strings\<close>

text \<open>
  Strings are lists of code units. Every character the program inspects (letters, digits,
  underscore, at-sign, dot, hyphen and the two angle brackets) is ASCII, so a code unit
  outside ASCII only ever counts as some other character.

  Time values are integer-valued Numbers. Below \<open>2^53\<close> in magnitude such a Number is
  exact, its difference is exact, and \<open>Math.floor(a / b)\<close> of two of them is the floor of
  the exact quotient, which is what the definitions compute over the reals.
\<close>

definition digitChar :: "nat \<Rightarrow> char" where
  "digitChar d = ''0123456789'' ! d"

fun natToString :: "nat \<Rightarrow> string" where
  "natToString n = (if n < 10 then [digitChar n] else natToString (n div 10) @ [digitChar (n mod 10)])"

declare natToString.simps [simp del]

text \<open>
  \<open>Number.prototype.toString()\<close> and template interpolation, on an integer below \<open>2^53\<close>
  in magnitude: there the Number is the integer and prints as its digits. (Beyond, a Number
  prints the shortest digits that read back as it, in exponent form from \<open>1e21\<close>; see
  \<open>jsNumber\<close> below.)
\<close>

definition numToString :: "int \<Rightarrow> string" where
  "numToString i = (if i < 0 then CHR ''-'' # natToString (nat (- i)) else natToString (nat i))"

text \<open>The \<open>%\<close> operator: the remainder takes the sign of the dividend.\<close>

definition jsRem :: "int \<Rightarrow> int \<Rightarrow> int" where
  "jsRem a b = sgn a * (\<bar>a\<bar> mod \<bar>b\<bar>)"

section \<open>Account age\<close>

text \<open>
  \<open>calculateAccountAge\<close> and \<open>calculateAgeDays\<close> are the same in both entry points. Each reads
  the clock itself (\<open>new Date()\<close>): \<open>now\<close> is that reading in milliseconds. \<open>created\<close> is the
  time value of \<open>new Date(createdAt)\<close>, \<open>None\<close> for an Invalid Date (NaN).
\<close>

definition calculateAccountAge :: "int \<Rightarrow> int option \<Rightarrow> string" where
  "calculateAccountAge now created =
     (case created of
        None \<Rightarrow> ''NaN months''
      | Some c \<Rightarrow>
          (let diffMs = now - c;
               diffDays = \<lfloor>real_of_int diffMs / (1000 * 60 * 60 * 24)\<rfloor>;
               years = \<lfloor>real_of_int diffDays / 365\<rfloor>;
               months = \<lfloor>real_of_int (jsRem diffDays 365) / 30\<rfloor>
           in if years > 0
              then numToString years @ '' years, '' @ numToString months @ '' months''
              else numToString months @ '' months''))"

definition calculateAgeDays :: "int \<Rightarrow> int option \<Rightarrow> int option" where
  "calculateAgeDays now created =
     (case created of
        None \<Rightarrow> None
      | Some c \<Rightarrow> Some \<lfloor>real_of_int (now - c) / (1000 * 60 * 60 * 24)\<rfloor>)"


section \<open>Regular expressions\<close>

text \<open>
  The two regular expressions of the program are built from character classes with a
  greedy repetition count, sequencing and a greedy optional group. \<open>rxMatch r s\<close> lists,
  in the order a backtracking matcher tries them, what is left of \<open>s\<close> after each way of
  matching \<open>r\<close> at its start; the first entry is the match the engine reports.
\<close>

datatype rx =
    Cls "char \<Rightarrow> bool" nat "nat option"
  | Seq rx rx
  | Opt rx

fun rxMatch :: "rx \<Rightarrow> string \<Rightarrow> string list" where
  "rxMatch (Cls p lo hi) s =
     (let n = length (takeWhile p s);
          m = (case hi of None \<Rightarrow> n | Some h \<Rightarrow> min h n)
      in map (\<lambda>k. drop k s) (rev [lo..<Suc m]))"
| "rxMatch (Seq a b) s = concat (map (rxMatch b) (rxMatch a s))"
| "rxMatch (Opt a) s = rxMatch a s @ [s]"

text \<open>\<open>/^r$/.test(s)\<close>: some way of matching \<open>r\<close> uses up the whole string.\<close>

definition rxTest :: "rx \<Rightarrow> string \<Rightarrow> bool" where
  "rxTest r s = ([] \<in> set (rxMatch r s))"

text \<open>
  \<open>s.replace(/r/g, '')\<close>: scanning from the left, the first match at the current position
  is dropped and the scan goes on behind it; where nothing matches (or only the empty
  string does) the character is kept and the scan moves one position on.
\<close>

fun rxRemoveAll :: "rx \<Rightarrow> string \<Rightarrow> string" where
  "rxRemoveAll r [] = []"
| "rxRemoveAll r (c # cs) =
     (case rxMatch r (c # cs) of
        [] \<Rightarrow> c # rxRemoveAll r cs
      | rest # _ \<Rightarrow>
          if length rest \<le> length cs then rxRemoveAll r rest else c # rxRemoveAll r cs)"

definition Lit :: "char \<Rightarrow> rx" where
  "Lit c = Cls (\<lambda>x. x = c) 1 (Some 1)"

definition inRange :: "char \<Rightarrow> char \<Rightarrow> char \<Rightarrow> bool" where
  "inRange lo hi c = ((of_char lo :: nat) \<le> of_char c \<and> (of_char c :: nat) \<le> of_char hi)"

definition alphaChar :: "char \<Rightarrow> bool" where
  "alphaChar c = (inRange CHR ''a'' CHR ''z'' c \<or> inRange CHR ''A'' CHR ''Z'' c)"

definition alnumChar :: "char \<Rightarrow> bool" where
  "alnumChar c = (alphaChar c \<or> inRange CHR ''0'' CHR ''9'' c)"

definition wordChar :: "char \<Rightarrow> bool" where
  "wordChar c = (alnumChar c \<or> c = CHR ''_'')"

definition domainChar :: "char \<Rightarrow> bool" where
  "domainChar c = (alnumChar c \<or> c = CHR ''.'' \<or> c = CHR ''-'')"

text \<open>\<open>@[a-zA-Z0-9.-]+\.[a-zA-Z]{2,}\<close>\<close>

definition atDomain :: rx where
  "atDomain =
     Seq (Lit CHR ''@'')
       (Seq (Cls domainChar 1 None) (Seq (Lit CHR ''.'') (Cls alphaChar 2 None)))"

text \<open>The multi-instance entry point: \<open>/^[a-zA-Z0-9_]{3,30}(@[a-zA-Z0-9.-]+\.[a-zA-Z]{2,})?$/\<close>\<close>

definition handleRegex :: rx where
  "handleRegex = Seq (Cls wordChar 3 (Some 30)) (Opt atDomain)"

text \<open>The single-instance entry point: \<open>/^[a-zA-Z0-9_]{3,30}@[a-zA-Z0-9.-]+\.[a-zA-Z]{2,}$/\<close>\<close>

definition handleRegex_single :: rx where
  "handleRegex_single = Seq (Cls wordChar 3 (Some 30)) atDomain"

text \<open>\<open>/<[^>]*>/g\<close>\<close>

definition tagRegex :: rx where
  "tagRegex = Seq (Lit CHR ''<'') (Seq (Cls (\<lambda>c. c \<noteq> CHR ''>'') 0 None) (Lit CHR ''>''))"

section \<open>String helpers\<close>

text \<open>\<open>s.split(sep)\<close> for a one-character separator.\<close>

fun splitOn :: "char \<Rightarrow> string \<Rightarrow> string list" where
  "splitOn sep [] = [[]]"
| "splitOn sep (c # cs) =
     (if c = sep then [] # splitOn sep cs
      else (case splitOn sep cs of p # ps \<Rightarrow> (c # p) # ps | [] \<Rightarrow> [[c]]))"

text \<open>\<open>xs.join(sep)\<close>\<close>

fun join :: "string \<Rightarrow> string list \<Rightarrow> string" where
  "join sep [] = []"
| "join sep [x] = x"
| "join sep (x # y # ys) = x @ sep @ join sep (y # ys)"

text \<open>
  A value that may be missing: a property that is absent reads as \<open>undefined\<close>, one that
  the upstream sent as \<open>null\<close> reads as \<open>null\<close>.
\<close>

datatype 'a jsopt = Undefined | Null | Val 'a

text \<open>\<open>xs[i]\<close>: \<open>undefined\<close> out of range.\<close>

definition elemAt :: "'a list \<Rightarrow> nat \<Rightarrow> 'a jsopt" where
  "elemAt xs i = (if i < length xs then Val (xs ! i) else Undefined)"

text \<open>A string spliced into a template literal.\<close>

definition interp :: "string jsopt \<Rightarrow> string" where
  "interp v = (case v of Undefined \<Rightarrow> ''undefined'' | Null \<Rightarrow> ''null'' | Val s \<Rightarrow> s)"

definition truthyStr :: "string jsopt \<Rightarrow> bool" where
  "truthyStr v = (case v of Val s \<Rightarrow> s \<noteq> [] | _ \<Rightarrow> False)"

definition truthyBool :: "bool jsopt \<Rightarrow> bool" where
  "truthyBool v = (case v of Val b \<Rightarrow> b | _ \<Rightarrow> False)"

text \<open>\<open>a || d\<close> where \<open>d\<close> is a template literal (always a string).\<close>

definition strOr :: "string jsopt \<Rightarrow> string \<Rightarrow> string" where
  "strOr a d = (case a of Val s \<Rightarrow> if s = [] then d else s | _ \<Rightarrow> d)"

definition hexDigit :: "nat \<Rightarrow> char" where
  "hexDigit k = ''0123456789ABCDEF'' ! k"

text \<open>
  \<open>encodeURIComponent\<close>: letters, digits and \<open>- _ . ! ~ * ' ( )\<close> stay; every other code
  unit becomes the \<open>%XX\<close> escapes of its UTF-8 bytes: one byte below U+0080, two bytes from
  there to U+00FF.
\<close>

definition percentByte :: "nat \<Rightarrow> string" where
  "percentByte b = [CHR ''%'', hexDigit (b div 16), hexDigit (b mod 16)]"

definition uriUnreserved :: "char \<Rightarrow> bool" where
  "uriUnreserved c = (alnumChar c \<or> c \<in> set ''-_.!~*()'' \<or> c = CHR 0x27)"

definition encodeURIComponent :: "string \<Rightarrow> string" where
  "encodeURIComponent s =
     concat (map (\<lambda>c. if uriUnreserved c then [c]
                       else if (of_char c :: nat) < 128 then percentByte (of_char c)
                       else percentByte (192 + of_char c div 64)
                              @ percentByte (128 + of_char c mod 64)) s)"


section \<open>Data model\<close>

text \<open>
  A Number as a count arrives from the JSON parser: a safe integer (below \<open>2^53\<close> in
  magnitude, where every integer is a Number of its own), or any other Number (a larger
  one, which the parser has rounded, or a fraction). All the program does with a count is
  to call \<open>toString\<close> on it, so a Number of the second kind is given by what \<open>toString\<close>
  prints for it, for instance \<open>1e+21\<close>.
\<close>

typedef safeInt = "{n :: int. \<bar>n\<bar> < 2 ^ 53}"
  by (rule exI [of _ 0]) simp

datatype jsNumber = SafeInteger safeInt | OtherNumber string

text \<open>\<open>x.toString()\<close> on a Number.\<close>

definition numberToString :: "jsNumber \<Rightarrow> string" where
  "numberToString x =
     (case x of SafeInteger i \<Rightarrow> numToString (Rep_safeInt i) | OtherNumber s \<Rightarrow> s)"

text \<open>
  The account record an instance returns, with the fields the program reads (prefixed
  \<open>raw_\<close>), typed as the Mastodon API types them. A body that is not an object reads as
  the record with every field \<open>Undefined\<close>.
\<close>

record RawProfile =
  raw_id :: "string jsopt"
  raw_username :: "string jsopt"
  raw_display_name :: "string jsopt"
  raw_created_at :: "string jsopt"
  raw_followers_count :: "jsNumber jsopt"
  raw_statuses_count :: "jsNumber jsopt"
  raw_bot :: "bool jsopt"
  raw_locked :: "bool jsopt"
  raw_note :: "string jsopt"
  raw_avatar :: "string jsopt"
  raw_avatar_static :: "string jsopt"
  raw_url :: "string jsopt"

text \<open>
  The output document. \<open>age_days\<close> is \<open>None\<close> for NaN; \<open>instance_used\<close> is \<open>Undefined\<close>
  where the object literal has no such key (the single-instance entry point).
\<close>

record FormattedProfile =
  username :: "string jsopt"
  nickname :: "string jsopt"
  estimated_creation_date :: string
  account_age :: string
  age_days :: "int option"
  followers :: string
  total_posts :: string
  verified :: string
  description :: string
  region :: string
  user_id :: "string jsopt"
  avatar :: string
  estimation_confidence :: string
  accuracy_range :: string
  profile_link :: string
  instance_used :: "string jsopt"

text \<open>
  The body of an upstream error response: \<open>NoData\<close> when it is falsy (absent, \<open>null\<close>,
  empty), otherwise the payload as sent.
\<close>

datatype respData = NoData | Data string

text \<open>
  A thrown value: its \<open>message\<close>, and for an axios error that came with an HTTP response
  the status and body of that response (\<open>error.response\<close>).
\<close>

record jsError =
  message :: string
  response :: "(nat \<times> respData) option"

text \<open>
  What \<open>axios.get\<close> does with a URL: it resolves with the body of a 2xx response
  (\<open>Null\<close> for a \<open>null\<close> body), or rejects (no response, a timeout, or a response outside
  2xx).
\<close>

datatype outcome = Resolved "RawProfile jsopt" | Rejected jsError

text \<open>
  The world around one request: the configured instance list, the upstream instances
  (by URL requested), the \<open>k\<close>-th reading of the clock during the request, the time value
  \<open>new Date(x)\<close> parses from a \<open>created_at\<close> and the locale's rendering of a date.
\<close>

record env =
  instances :: "string list"
  upstream :: "string \<Rightarrow> outcome"
  clock :: "nat \<Rightarrow> int"
  parseDate :: "string jsopt \<Rightarrow> int option"
  toLocaleDateString :: "int option \<Rightarrow> string"

text \<open>The TypeError of reading a property of \<open>undefined\<close> or \<open>null\<close> (wording of V8).\<close>

definition typeError :: "string \<Rightarrow> string \<Rightarrow> jsError" where
  "typeError what prop =
     \<lparr>message = ''Cannot read properties of '' @ what @ '' (reading '' @ [CHR 0x27] @ prop @ [CHR 0x27] @ '')'',
      response = None\<rparr>"

text \<open>\<open>new Error(msg)\<close>\<close>

definition newError :: "string \<Rightarrow> jsError" where
  "newError msg = \<lparr>message = msg, response = None\<rparr>"

text \<open>\<open>error.response?.status || dflt\<close>\<close>

definition statusOr :: "jsError \<Rightarrow> nat \<Rightarrow> nat" where
  "statusOr e dflt = (case response e of Some (st, _) \<Rightarrow> if st = 0 then dflt else st | None \<Rightarrow> dflt)"

text \<open>\<open>error.message || 'Failed to fetch Mastodon data'\<close>\<close>

definition messageOr :: "jsError \<Rightarrow> string" where
  "messageOr e = (if message e = [] then ''Failed to fetch Mastodon data'' else message e)"

text \<open>\<open>error.response?.data || 'No additional details'\<close>\<close>

definition detailsOr :: "jsError \<Rightarrow> string" where
  "detailsOr e = (case response e of Some (_, Data d) \<Rightarrow> d | _ \<Rightarrow> ''No additional details'')"

datatype body =
    ErrorBody string
  | ErrorDetailsBody string string
  | ProfileBody FormattedProfile
  | UsersBody "FormattedProfile list" string

record httpResponse =
  status :: nat
  body :: body

section \<open>Profile formatter\<close>

text \<open>\<open>x.toString()\<close> on a count.\<close>

definition countToString :: "jsNumber jsopt \<Rightarrow> jsError + string" where
  "countToString v =
     (case v of
        Val n \<Rightarrow> Inr (numberToString n)
      | Undefined \<Rightarrow> Inl (typeError ''undefined'' ''toString'')
      | Null \<Rightarrow> Inl (typeError ''null'' ''toString''))"

text \<open>\<open>profile.note.replace(/<[^>]*>/g, '')\<close>\<close>

definition stripNote :: "string jsopt \<Rightarrow> jsError + string" where
  "stripNote v =
     (case v of
        Val s \<Rightarrow> Inr (rxRemoveAll tagRegex s)
      | Undefined \<Rightarrow> Inl (typeError ''undefined'' ''replace'')
      | Null \<Rightarrow> Inl (typeError ''null'' ''replace''))"

text \<open>\<open>profile.bot ? 'Bot Account' : (profile.locked ? 'Protected' : 'Standard')\<close>\<close>

definition verifiedLabel :: "RawProfile \<Rightarrow> string" where
  "verifiedLabel p =
     (if truthyBool (raw_bot p) then ''Bot Account''
      else if truthyBool (raw_locked p) then ''Protected'' else ''Standard'')"

text \<open>
  The object literal both entry points build. \<open>host\<close> is the instance spliced into the
  fallback URLs, \<open>used\<close> the \<open>instance_used\<close> entry; \<open>k\<close> numbers the clock readings
  (\<open>calculateAccountAge\<close> reads first, \<open>calculateAgeDays\<close> second). The two \<open>toString\<close>
  calls and the \<open>replace\<close> call throw on a missing value, in this order.
\<close>

definition profileDocument ::
  "env \<Rightarrow> nat \<Rightarrow> RawProfile \<Rightarrow> string \<Rightarrow> string jsopt \<Rightarrow> jsError + FormattedProfile" where
  "profileDocument env k p host used =
     (let avatarUrl =
            strOr (raw_avatar_static p)
              (strOr (raw_avatar p) (''https://'' @ host @ ''/avatars/original/missing.png''));
          created = parseDate env (raw_created_at p)
      in case countToString (raw_followers_count p) of
           Inl e \<Rightarrow> Inl e
         | Inr fs \<Rightarrow>
             (case countToString (raw_statuses_count p) of
                Inl e \<Rightarrow> Inl e
              | Inr ts \<Rightarrow>
                  (case stripNote (raw_note p) of
                     Inl e \<Rightarrow> Inl e
                   | Inr d \<Rightarrow>
                       Inr \<lparr>username = raw_username p,
                            nickname = (if truthyStr (raw_display_name p)
                                        then raw_display_name p else raw_username p),
                            estimated_creation_date = toLocaleDateString env created,
                            account_age = calculateAccountAge (clock env k) created,
                            age_days = calculateAgeDays (clock env (k + 1)) created,
                            followers = fs,
                            total_posts = ts,
                            verified = verifiedLabel p,
                            description = d,
                            region = ''N/A'',
                            user_id = raw_id p,
                            avatar = avatarUrl,
                            estimation_confidence = ''High (exact server timestamp)'',
                            accuracy_range = ''Second-level (ISO 8601 timestamp)'',
                            profile_link =
                              strOr (raw_url p)
                                (''https://'' @ host @ ''/@'' @ interp (raw_username p)),
                            instance_used = used\<rparr>)))"

text \<open>
  \<open>processProfileData(profile, instanceUsed)\<close> of the multi-instance entry point. A
  profile that is \<open>null\<close> or \<open>undefined\<close> throws at the first property read.
\<close>

definition processProfileData ::
  "env \<Rightarrow> nat \<Rightarrow> RawProfile jsopt \<Rightarrow> string \<Rightarrow> jsError + FormattedProfile" where
  "processProfileData env k profile instanceUsed =
     (case profile of
        Undefined \<Rightarrow> Inl (typeError ''undefined'' ''avatar_static'')
      | Null \<Rightarrow> Inl (typeError ''null'' ''avatar_static'')
      | Val p \<Rightarrow> profileDocument env k p instanceUsed (Val instanceUsed))"


section \<open>Instance client and aggregator (multi-instance entry point)\<close>

text \<open>
  One result per instance queried: \<open>{data, instanceUsed}\<close> or \<open>{error, instanceUsed}\<close>.
\<close>

datatype LookupResult =
    Found "RawProfile jsopt" string
  | Failed jsError string

definition instanceOf :: "LookupResult \<Rightarrow> string" where
  "instanceOf r = (case r of Found _ i \<Rightarrow> i | Failed _ i \<Rightarrow> i)"

text \<open>\<open>r.data\<close>\<close>

definition dataOf :: "LookupResult \<Rightarrow> RawProfile jsopt" where
  "dataOf r = (case r of Found d _ \<Rightarrow> d | Failed _ _ \<Rightarrow> Undefined)"

definition lookupUrl :: "string \<Rightarrow> string \<Rightarrow> string" where
  "lookupUrl inst user =
     ''https://'' @ inst @ ''/api/v1/accounts/lookup?acct='' @ encodeURIComponent user"

text \<open>
  \<open>fetchFromInstance(username, instance)\<close>: the result, and the URLs requested on the way.
  The whole body is inside \<open>try\<close>, and \<open>catch\<close> returns.
\<close>

definition fetchFromInstance :: "env \<Rightarrow> string \<Rightarrow> string \<Rightarrow> LookupResult \<times> string list" where
  "fetchFromInstance env user inst =
     (let apiUrl = lookupUrl inst user
      in case upstream env apiUrl of
           Resolved d \<Rightarrow> (Found d inst, [apiUrl])
         | Rejected e \<Rightarrow> (Failed e inst, [apiUrl]))"

text \<open>\<open>result => result.data && result.data.id\<close>\<close>

definition isSuccess :: "LookupResult \<Rightarrow> bool" where
  "isSuccess r = (case r of Found (Val p) _ \<Rightarrow> truthyStr (raw_id p) | _ \<Rightarrow> False)"

text \<open>What \<open>getMastodonProfile\<close> returns: one result, or the array of successes.\<close>

datatype lookup = One LookupResult | Many "LookupResult list"

text \<open>
  \<open>getMastodonProfile(handle)\<close>: what it returns (\<open>Inr\<close>) or throws (\<open>Inl\<close>), and the URLs
  requested. \<open>Promise.all\<close> over promises that never reject keeps the order of \<open>instances\<close>.
\<close>

definition getMastodonProfile :: "env \<Rightarrow> string \<Rightarrow> (jsError + lookup) \<times> string list" where
  "getMastodonProfile env handle =
     (let isFullHandle = (CHR ''@'' \<in> set handle);
          user = interp (elemAt (splitOn CHR ''@'' handle) 0)
      in if isFullHandle then
           (let inst = interp (elemAt (splitOn CHR ''@'' handle) 1);
                fetched = fetchFromInstance env user inst
            in (Inr (One (fst fetched)), snd fetched))
         else
           (let fetched = map (fetchFromInstance env user) (instances env);
                results = map fst fetched;
                successes = filter isSuccess results
            in if length successes = 0
               then (Inl (newError (''No account found for '' @ user @ '' on instances: ''
                                      @ join '', '' (instances env))),
                     concat (map snd fetched))
               else (Inr (Many successes), concat (map snd fetched))))"

section \<open>HTTP endpoint (multi-instance entry point)\<close>

text \<open>The \<open>catch\<close> block of the route.\<close>

definition serverError :: "env \<Rightarrow> jsError \<Rightarrow> httpResponse" where
  "serverError env e =
     \<lparr>status = 500,
      body = ErrorDetailsBody (messageOr e) (''Searched instances: '' @ join '', '' (instances env))\<rparr>"

text \<open>
  \<open>result.map(r => ({...processProfileData(r.data, r.instanceUsed), estimation_confidence: ...}))\<close>;
  \<open>k\<close> is the next clock reading.
\<close>

fun processAll :: "env \<Rightarrow> nat \<Rightarrow> LookupResult list \<Rightarrow> jsError + FormattedProfile list" where
  "processAll env k [] = Inr []"
| "processAll env k (r # rs) =
     (case processProfileData env k (dataOf r) (instanceOf r) of
        Inl e \<Rightarrow> Inl e
      | Inr doc \<Rightarrow>
          (case processAll env (k + 2) rs of
             Inl e \<Rightarrow> Inl e
           | Inr docs \<Rightarrow>
               Inr (doc\<lparr>estimation_confidence := ''Medium (multiple instances found)''\<rparr> # docs)))"

definition singleProfile :: "env \<Rightarrow> RawProfile jsopt \<Rightarrow> string \<Rightarrow> httpResponse" where
  "singleProfile env d used =
     (case processProfileData env 0 d used of
        Inl e \<Rightarrow> serverError env e
      | Inr doc \<Rightarrow> \<lparr>status = 200, body = ProfileBody doc\<rparr>)"

text \<open>
  \<open>app.get('/api/mastodon/:handle')\<close>: the response and the URLs requested upstream.
\<close>

definition lookupEndpoint :: "env \<Rightarrow> string \<Rightarrow> httpResponse \<times> string list" where
  "lookupEndpoint env handle =
     (if handle = [] then
        (\<lparr>status = 400,
          body = ErrorBody ''Handle is required (e.g., gargron or gargron@mastodon.social)''\<rparr>, [])
      else if \<not> rxTest handleRegex handle then
        (\<lparr>status = 400,
          body = ErrorBody
            (''Invalid Mastodon handle format. Use username (3-30 chars, letters/numbers/underscores) or username@instance.social. Searched instances: ''
               @ join '', '' (instances env) @ ''.'')\<rparr>, [])
      else
        (case getMastodonProfile env handle of
           (Inl e, calls) \<Rightarrow> (serverError env e, calls)
         | (Inr (One result), calls) \<Rightarrow>
             (case result of
                Failed e _ \<Rightarrow>
                  (let inst = (if CHR ''@'' \<in> set handle
                               then interp (elemAt (splitOn CHR ''@'' handle) 1)
                               else interp (elemAt (instances env) 0))
                   in \<lparr>status = statusOr e 404,
                       body = ErrorBody (''Mastodon account '' @ handle
                                @ '' not found, suspended, or instance '' @ inst @ '' unavailable'')\<rparr>)
              | Found d used \<Rightarrow> singleProfile env d used, calls)
         | (Inr (Many result), calls) \<Rightarrow>
             (if length result > 1 then
                (case processAll env 0 result of
                   Inl e \<Rightarrow> serverError env e
                 | Inr profiles \<Rightarrow>
                     \<lparr>status = 200,
                      body = UsersBody profiles
                        (''Multiple accounts found for '' @ interp (elemAt (splitOn CHR ''@'' handle) 0)
                           @ ''. Use instance_used or profile_link to select the correct account.'')\<rparr>)
              else
                (case result of
                   r # _ \<Rightarrow> singleProfile env (dataOf r) (instanceOf r)
                 | [] \<Rightarrow> serverError env (typeError ''undefined'' ''data'')), calls)))"

section \<open>Single-instance entry point\<close>

text \<open>
  \<open>getMastodonProfile(handle)\<close> of \<open>mastodon-age-checker.js\<close>: it returns \<open>response.data\<close>, and
  its \<open>catch\<close> block logs the error and throws it again.
\<close>

definition getMastodonProfile_single ::
  "env \<Rightarrow> string \<Rightarrow> (jsError + RawProfile jsopt) \<times> string list" where
  "getMastodonProfile_single env handle0 =
     (let handle = (if CHR ''@'' \<notin> set handle0 then handle0 @ ''@mastodon.social'' else handle0);
          user = interp (elemAt (splitOn CHR ''@'' handle) 0);
          inst = interp (elemAt (splitOn CHR ''@'' handle) 1);
          apiUrl = lookupUrl inst user
      in case upstream env apiUrl of
           Resolved d \<Rightarrow> (Inr d, [apiUrl])
         | Rejected e \<Rightarrow> (Inl e, [apiUrl]))"

text \<open>The \<open>catch\<close> block of the route.\<close>

definition catch_single :: "string \<Rightarrow> jsError \<Rightarrow> httpResponse" where
  "catch_single handle e =
     (if (case response e of Some (st, _) \<Rightarrow> st = 404 \<or> st = 403 | None \<Rightarrow> False) then
        \<lparr>status = 404,
         body = ErrorBody (''Mastodon account '' @ handle
                  @ '' not found, suspended, or instance unavailable'')\<rparr>
      else
        \<lparr>status = statusOr e 500, body = ErrorDetailsBody (messageOr e) (detailsOr e)\<rparr>)"

definition notFound_single :: "string \<Rightarrow> httpResponse" where
  "notFound_single handle =
     \<lparr>status = 404,
      body = ErrorBody (''Mastodon account '' @ handle @ '' not found or suspended'')\<rparr>"

definition lookupEndpoint_single :: "env \<Rightarrow> string \<Rightarrow> httpResponse \<times> string list" where
  "lookupEndpoint_single env handle =
     (if handle = [] then
        (\<lparr>status = 400,
          body = ErrorBody ''Handle is required (e.g., gargron@mastodon.social)''\<rparr>, [])
      else if \<not> rxTest handleRegex_single handle then
        (\<lparr>status = 400,
          body = ErrorBody ''Invalid Mastodon handle format. Use username@instance.social (3-30 chars username, valid domain).''\<rparr>, [])
      else
        (case getMastodonProfile_single env handle of
           (Inl e, calls) \<Rightarrow> (catch_single handle e, calls)
         | (Inr profile, calls) \<Rightarrow>
             (case profile of
                Val p \<Rightarrow>
                  if \<not> truthyStr (raw_id p) then notFound_single handle
                  else
                    (case profileDocument env 0 p
                            (interp (elemAt (splitOn CHR ''@'' handle) 1)) Undefined of
                       Inl e \<Rightarrow> catch_single handle e
                     | Inr doc \<Rightarrow> \<lparr>status = 200, body = ProfileBody doc\<rparr>)
              | _ \<Rightarrow> notFound_single handle, calls)))"


section \<open>Reference notions for the properties\<close>

text \<open>
  Tag removal as the specification words it: \<open>tagAt s i j\<close> says that the substring of \<open>s\<close>
  from position \<open>i\<close> to position \<open>j\<close> starts with \<open><\<close>, goes on with characters other
  than \<open>>\<close> and ends with \<open>>\<close>; \<open>removeTags\<close> keeps exactly the characters that lie in no
  such substring.
\<close>

definition tagAt :: "string \<Rightarrow> nat \<Rightarrow> nat \<Rightarrow> bool" where
  "tagAt s i j =
     (i < j \<and> j < length s \<and> s ! i = CHR ''<'' \<and> s ! j = CHR ''>''
      \<and> (\<forall>m\<in>{i<..<j}. s ! m \<noteq> CHR ''>''))"

definition inTag :: "string \<Rightarrow> nat \<Rightarrow> bool" where
  "inTag s k = (\<exists>i\<in>{..k}. \<exists>j\<in>{k..<length s}. tagAt s i j)"

definition removeTags :: "string \<Rightarrow> string" where
  "removeTags s = map (\<lambda>k. s ! k) (filter (\<lambda>k. \<not> inTag s k) [0..<length s])"






text \<open>The strings a regular expression matches as a whole.\<close>

primrec lang :: "rx \<Rightarrow> string set" where
  "lang (Cls p lo hi) =
     {w. (\<forall>c\<in>set w. p c) \<and> lo \<le> length w \<and> (case hi of None \<Rightarrow> True | Some h \<Rightarrow> length w \<le> h)}"
| "lang (Seq a b) = {w. \<exists>u v. w = u @ v \<and> u \<in> lang a \<and> v \<in> lang b}"
| "lang (Opt a) = insert [] (lang a)"

text \<open>
  A username: 3 to 30 letters, digits or underscores. A domain: one or more letters,
  digits, dots or hyphens, then a dot, then two or more letters.
\<close>

definition usernameOk :: "string \<Rightarrow> bool" where
  "usernameOk u = (3 \<le> length u \<and> length u \<le> 30 \<and> (\<forall>c\<in>set u. wordChar c))"

definition domainOk :: "string \<Rightarrow> bool" where
  "domainOk d =
     (\<exists>a t. d = a @ ''.'' @ t \<and> a \<noteq> [] \<and> (\<forall>c\<in>set a. domainChar c)
            \<and> 2 \<le> length t \<and> (\<forall>c\<in>set t. alphaChar c))"

text \<open>The array \<open>results\<close> of \<open>getMastodonProfile\<close>: one entry per configured instance.\<close>

definition lookupResults :: "env \<Rightarrow> string \<Rightarrow> LookupResult list" where
  "lookupResults env user = map (\<lambda>i. fst (fetchFromInstance env user i)) (instances env)"

text \<open>
  A result whose profile carries the fields the formatter cannot do without: the two
  counts and the bio.
\<close>

definition isVal :: "'a jsopt \<Rightarrow> bool" where
  "isVal v = (case v of Val _ \<Rightarrow> True | _ \<Rightarrow> False)"

definition wellFormed :: "LookupResult \<Rightarrow> bool" where
  "wellFormed r =
     (case dataOf r of
        Val p \<Rightarrow> isVal (raw_followers_count p) \<and> isVal (raw_statuses_count p) \<and> isVal (raw_note p)
      | _ \<Rightarrow> False)"

text \<open>An example account, an upstream answer for an unknown account, and an example world.\<close>

definition exampleProfile :: RawProfile where
  "exampleProfile =
     \<lparr>raw_id = Val ''1'', raw_username = Val ''Gargron'', raw_display_name = Val ''Eugen'',
      raw_created_at = Val ''2016-03-16T00:00:00.000Z'',
      raw_followers_count = Val (SafeInteger (Abs_safeInt 350000)),
      raw_statuses_count = Val (SafeInteger (Abs_safeInt 75000)),
      raw_bot = Val False, raw_locked = Val True,
      raw_note = Val ''<p>Founder of <b>Mastodon</b> &amp; more</p>'',
      raw_avatar = Val ''https://files.mastodon.social/a.gif'',
      raw_avatar_static = Val ''https://files.mastodon.social/a.png'',
      raw_url = Val ''https://mastodon.social/@Gargron''\<rparr>"

definition notFound404 :: jsError where
  "notFound404 =
     \<lparr>message = ''Request failed with status code 404'',
      response = Some (404, Data ''Record not found'')\<rparr>"

definition exampleEnv :: env where
  "exampleEnv =
     \<lparr>instances = [''mastodon.social'', ''fosstodon.org'', ''mstdn.social''],
      upstream = (\<lambda>url. if url = ''https://mastodon.social/api/v1/accounts/lookup?acct=Gargron''
                         then Resolved (Val exampleProfile) else Rejected notFound404),
      clock = (\<lambda>k. 1700000000000 + int k),
      parseDate = (\<lambda>s. if s = Val ''2016-03-16T00:00:00.000Z'' then Some 1458086400000 else None),
      toLocaleDateString = (\<lambda>d. ''3/16/2016'')\<rparr>"

text \<open>A world in which two of the three instances know the account.\<close>

definition exampleEnv2 :: env where
  "exampleEnv2 =
     exampleEnv\<lparr>upstream :=
       (\<lambda>url. if url = ''https://mastodon.social/api/v1/accounts/lookup?acct=Gargron''
                  \<or> url = ''https://mstdn.social/api/v1/accounts/lookup?acct=Gargron''
               then Resolved (Val exampleProfile) else Rejected notFound404)\<rparr>"

text \<open>Upstream failures: a timeout (no response), and responses with status 403 and 503.\<close>

definition timeoutError :: jsError where
  "timeoutError = \<lparr>message = ''timeout of 5000ms exceeded'', response = None\<rparr>"

definition forbidden403 :: jsError where
  "forbidden403 =
     \<lparr>message = ''Request failed with status code 403'',
      response = Some (403, Data ''Forbidden'')\<rparr>"

definition unavailable503 :: jsError where
  "unavailable503 =
     \<lparr>message = ''Request failed with status code 503'',
      response = Some (503, Data ''Service Unavailable'')\<rparr>"

section \<open>Account age: properties\<close>

lemma floor_quotient: "\<lfloor>real_of_int a / real_of_int b\<rfloor> = a div b"
  by (simp add: floor_divide_of_int_eq)

lemma calculateAgeDays_div:
  "calculateAgeDays now (Some c) = Some ((now - c) div 86400000)"
  using floor_quotient [of "now - c" 86400000] by (simp add: calculateAgeDays_def)

lemma floor_div_365: "\<lfloor>real_of_int a / 365\<rfloor> = a div 365"
  using floor_quotient [of a 365] by simp

lemma floor_div_30: "\<lfloor>real_of_int a / 30\<rfloor> = a div 30"
  using floor_quotient [of a 30] by simp

lemma floor_div_day:
  "\<lfloor>(real_of_int a - real_of_int b) / 86400000\<rfloor> = (a - b) div 86400000"
  using floor_quotient [of "a - b" 86400000] by simp

lemma jsRem_nonneg: "0 \<le> a \<Longrightarrow> jsRem a 365 = a mod 365"
  by (cases "a = 0") (simp_all add: jsRem_def)

lemma calculateAccountAge_days:
  "calculateAccountAge now (Some c) =
     (let d = (now - c) div 86400000; years = d div 365; months = jsRem d 365 div 30
      in if years > 0
         then numToString years @ '' years, '' @ numToString months @ '' months''
         else numToString months @ '' months'')"
  by (simp add: calculateAccountAge_def Let_def floor_div_365 floor_div_30 floor_div_day)

text \<open>
  C1. When the whole-day difference \<open>d\<close> between now and the creation time (the value
  \<open>calculateAgeDays\<close> computes) is not negative, \<open>account_age\<close> is
  \<open>"<Y> years, <M> months"\<close> with \<open>Y = d div 365\<close> and \<open>M = (d mod 365) div 30\<close> when
  \<open>Y > 0\<close>, and \<open>"<M> months"\<close> when \<open>Y = 0\<close>; at \<open>d = 400\<close> it is \<open>"1 years, 1 months"\<close>.
\<close>

theorem C1_account_age_format:
  assumes "calculateAgeDays now (Some c) = Some d" and "0 \<le> d"
  shows "calculateAccountAge now (Some c) =
           (if 0 < d div 365
            then numToString (d div 365) @ '' years, '' @ numToString ((d mod 365) div 30) @ '' months''
            else numToString ((d mod 365) div 30) @ '' months'')
         \<and> (d = 400 \<longrightarrow> calculateAccountAge now (Some c) = ''1 years, 1 months'')"
proof -
  from assms(1) have d: "(now - c) div 86400000 = d"
    by (simp add: calculateAgeDays_div)
  have general: "calculateAccountAge now (Some c) =
           (if 0 < d div 365
            then numToString (d div 365) @ '' years, '' @ numToString ((d mod 365) div 30) @ '' months''
            else numToString ((d mod 365) div 30) @ '' months'')"
    using assms(2) by (simp add: calculateAccountAge_days d jsRem_nonneg Let_def)
  have "d = 400 \<Longrightarrow> calculateAccountAge now (Some c) = ''1 years, 1 months''"
    by (simp add: general numToString_def natToString.simps digitChar_def)
  with general show ?thesis by blast
qed

theorem C1_account_age_format_witness:
  "calculateAgeDays 34560000007 (Some 7) = Some 400 \<and> (0::int) \<le> 400
   \<and> calculateAccountAge 34560000007 (Some 7) = ''1 years, 1 months''"
proof -
  have h: "calculateAgeDays 34560000007 (Some 7) = Some 400"
    by (simp add: calculateAgeDays_div)
  show ?thesis using h C1_account_age_format [OF h]
    by (simp add: numToString_def natToString.simps digitChar_def)
qed

text \<open>
  C7. For a fixed creation time, \<open>age_days\<close> does not decrease as the clock advances.
\<close>

theorem C7_age_days_monotone:
  assumes "now1 \<le> now2"
  shows "\<exists>d1 d2. calculateAgeDays now1 (Some c) = Some d1
           \<and> calculateAgeDays now2 (Some c) = Some d2 \<and> d1 \<le> d2"
proof -
  from assms have "(now1 - c) div 86400000 \<le> (now2 - c) div 86400000"
    by (intro zdiv_mono1) simp_all
  then show ?thesis by (simp add: calculateAgeDays_div)
qed

theorem C7_age_days_monotone_witness:
  "(86399999::int) \<le> 86400000
   \<and> calculateAgeDays 86399999 (Some 0) = Some 0 \<and> calculateAgeDays 86400000 (Some 0) = Some 1"
  using C7_age_days_monotone [of 86399999 86400000 0] by (simp add: calculateAgeDays_div)


section \<open>Decimal rendering\<close>













lemma profileDocument_Inr:
  assumes "profileDocument env k p host used = Inr doc"
  shows "\<exists>n m s. raw_followers_count p = Val n \<and> raw_statuses_count p = Val m \<and> raw_note p = Val s
           \<and> followers doc = numberToString n \<and> total_posts doc = numberToString m
           \<and> description doc = rxRemoveAll tagRegex s \<and> verified doc = verifiedLabel p
           \<and> estimation_confidence doc = ''High (exact server timestamp)''
           \<and> instance_used doc = used"
  using assms
  by (auto simp: profileDocument_def Let_def countToString_def stripNote_def
           split: jsopt.splits sum.splits)

lemma profileDocument_total:
  assumes "raw_followers_count p = Val n" "raw_statuses_count p = Val m" "raw_note p = Val s"
  shows "\<exists>doc. profileDocument env k p host used = Inr doc"
  using assms by (simp add: profileDocument_def Let_def countToString_def stripNote_def)

section \<open>Tag stripping\<close>

lemma nths_as_filter: "nths s A = map (\<lambda>k. s ! k) (filter (\<lambda>k. k \<in> A) [0..<length s])"
proof (induction s rule: rev_induct)
  case Nil
  show ?case by simp
next
  case (snoc x xs)
  then show ?case by (simp add: nths_append nth_append)
qed

lemma removeTags_nths: "removeTags s = nths s {k. \<not> inTag s k}"
  by (simp add: removeTags_def nths_as_filter)

lemma rxMatch_Lit:
  "rxMatch (Lit c) s = (case s of [] \<Rightarrow> [] | x # xs \<Rightarrow> if x = c then [xs] else [])"
  by (cases s) (simp_all add: Lit_def)

lemma concat_only_last:
  assumes "\<And>k. k < n \<Longrightarrow> f k = []"
  shows "concat (map f (rev [0..<Suc n])) = f n"
proof -
  have "concat (map f (rev [0..<n])) = []" using assms by simp
  then show ?thesis by simp
qed

lemma drop_in_takeWhile:
  assumes "k < length (takeWhile p s)"
  shows "\<exists>x xs. drop k s = x # xs \<and> p x"
proof -
  from assms have k: "k < length s"
    using length_takeWhile_le [of p s] by simp
  have "takeWhile p s ! k \<in> set (takeWhile p s)" using assms by simp
  then have "p (takeWhile p s ! k)" by (rule set_takeWhileD [THEN conjunct2])
  then have "p (s ! k)" using assms by (simp add: takeWhile_nth)
  with k show ?thesis by (metis Cons_nth_drop_Suc)
qed

lemma rxMatch_until:
  "rxMatch (Seq (Cls (\<lambda>c. c \<noteq> g) 0 None) (Lit g)) s = rxMatch (Lit g) (dropWhile (\<lambda>c. c \<noteq> g) s)"
proof -
  let ?p = "\<lambda>c. c \<noteq> g"
  let ?n = "length (takeWhile ?p s)"
  have "\<And>k. k < ?n \<Longrightarrow> rxMatch (Lit g) (drop k s) = []"
  proof -
    fix k assume "k < ?n"
    from drop_in_takeWhile [OF this] obtain x xs where "drop k s = x # xs" "x \<noteq> g" by blast
    then show "rxMatch (Lit g) (drop k s) = []" by (simp add: rxMatch_Lit)
  qed
  from concat_only_last [of ?n "\<lambda>k. rxMatch (Lit g) (drop k s)", OF this]
  show ?thesis by (simp add: dropWhile_eq_drop comp_def Let_def)
qed


lemma dropWhile_not_gt_head:
  "dropWhile (\<lambda>x. x \<noteq> g) cs = y # rest \<Longrightarrow> y = g"
  using hd_dropWhile [of "\<lambda>x. x \<noteq> g" cs] by auto

lemma rxMatch_tagRegex_Nil: "rxMatch tagRegex [] = []"
  by (simp add: tagRegex_def rxMatch_Lit)

lemma rxMatch_tagRegex_other: "c \<noteq> CHR ''<'' \<Longrightarrow> rxMatch tagRegex (c # cs) = []"
  by (simp add: tagRegex_def rxMatch_Lit)

lemma rxMatch_tagRegex_open:
  "rxMatch tagRegex (CHR ''<'' # cs) =
     (case dropWhile (\<lambda>x. x \<noteq> CHR ''>'') cs of [] \<Rightarrow> [] | _ # rest \<Rightarrow> [rest])"
proof -
  have m: "rxMatch tagRegex (CHR ''<'' # cs) =
          rxMatch (Lit CHR ''>'') (dropWhile (\<lambda>x. x \<noteq> CHR ''>'') cs)"
    unfolding tagRegex_def rxMatch.simps(2) [of "Lit CHR ''<''"] rxMatch_until
    by (simp add: rxMatch_Lit)
  show ?thesis
  proof (cases "dropWhile (\<lambda>x. x \<noteq> CHR ''>'') cs")
    case Nil
    show ?thesis unfolding m Nil by (simp add: rxMatch_Lit)
  next
    case (Cons y rest)
    from dropWhile_not_gt_head [OF Cons] have "y = CHR ''>''" .
    then show ?thesis unfolding m Cons by (simp add: rxMatch_Lit)
  qed
qed

lemma strip_other: "c \<noteq> CHR ''<'' \<Longrightarrow> rxRemoveAll tagRegex (c # cs) = c # rxRemoveAll tagRegex cs"
  by (simp add: rxMatch_tagRegex_other)

lemma strip_unclosed:
  assumes "CHR ''>'' \<notin> set cs"
  shows "rxRemoveAll tagRegex (CHR ''<'' # cs) = CHR ''<'' # rxRemoveAll tagRegex cs"
proof -
  from assms have dw: "dropWhile (\<lambda>x. x \<noteq> CHR ''>'') cs = []" by auto
  show ?thesis unfolding rxRemoveAll.simps rxMatch_tagRegex_open dw by simp
qed

lemma strip_tag:
  assumes "dropWhile (\<lambda>x. x \<noteq> CHR ''>'') cs = g # rest"
  shows "rxRemoveAll tagRegex (CHR ''<'' # cs) = rxRemoveAll tagRegex rest"
proof -
  have "length (g # rest) \<le> length cs"
    using length_dropWhile_le [of "\<lambda>x. x \<noteq> CHR ''>''" cs] assms by simp
  then show ?thesis using assms by (simp add: rxMatch_tagRegex_open)
qed


lemma inTag_iff: "inTag s k \<longleftrightarrow> (\<exists>i j. i \<le> k \<and> k \<le> j \<and> tagAt s i j)"
proof
  assume "inTag s k"
  then obtain i j where "i \<in> {..k}" "j \<in> {k..<length s}" "tagAt s i j"
    unfolding inTag_def by blast
  then have "i \<le> k \<and> k \<le> j \<and> tagAt s i j" by simp
  then show "\<exists>i j. i \<le> k \<and> k \<le> j \<and> tagAt s i j" by blast
next
  assume "\<exists>i j. i \<le> k \<and> k \<le> j \<and> tagAt s i j"
  then obtain i j where ij: "i \<le> k" "k \<le> j" "tagAt s i j" by blast
  from ij(3) have "j < length s" by (simp add: tagAt_def)
  with ij have "i \<in> {..k}" "j \<in> {k..<length s}" by simp_all
  with ij(3) show "inTag s k" unfolding inTag_def by blast
qed

lemma tagAt_Cons_Suc: "tagAt (c # cs) (Suc i) (Suc j) = tagAt cs i j"
proof -
  have "(\<forall>m\<in>{Suc i<..<Suc j}. (c # cs) ! m \<noteq> CHR ''>'') \<longleftrightarrow> (\<forall>m\<in>{i<..<j}. cs ! m \<noteq> CHR ''>'')"
  proof
    assume a: "\<forall>m\<in>{Suc i<..<Suc j}. (c # cs) ! m \<noteq> CHR ''>''"
    show "\<forall>m\<in>{i<..<j}. cs ! m \<noteq> CHR ''>''"
    proof
      fix m assume "m \<in> {i<..<j}"
      then have "Suc m \<in> {Suc i<..<Suc j}" by simp
      with a have "(c # cs) ! Suc m \<noteq> CHR ''>''" by blast
      then show "cs ! m \<noteq> CHR ''>''" by simp
    qed
  next
    assume a: "\<forall>m\<in>{i<..<j}. cs ! m \<noteq> CHR ''>''"
    show "\<forall>m\<in>{Suc i<..<Suc j}. (c # cs) ! m \<noteq> CHR ''>''"
    proof
      fix m assume m: "m \<in> {Suc i<..<Suc j}"
      then obtain m' where m': "m = Suc m'" by (cases m) auto
      with m have "m' \<in> {i<..<j}" by simp
      with a have "cs ! m' \<noteq> CHR ''>''" by blast
      with m' show "(c # cs) ! m \<noteq> CHR ''>''" by simp
    qed
  qed
  then show ?thesis by (simp add: tagAt_def)
qed

lemma tagAt_Cons_0:
  assumes "tagAt (c # cs) 0 j"
  shows "c = CHR ''<'' \<and> CHR ''>'' \<in> set cs"
proof -
  from assms obtain j' where j: "j = Suc j'" by (cases j) (auto simp: tagAt_def)
  from assms j have "c = CHR ''<''" "j' < length cs" "cs ! j' = CHR ''>''"
    by (auto simp: tagAt_def)
  then show ?thesis by (metis nth_mem)
qed

lemma tagAt_append_shift: "tagAt (t @ r) (i + length t) (j + length t) = tagAt r i j"
  by (induction t) (simp_all add: tagAt_Cons_Suc)

lemma inTag_Cons_0:
  assumes "\<not> (c = CHR ''<'' \<and> CHR ''>'' \<in> set cs)"
  shows "\<not> inTag (c # cs) 0"
proof
  assume "inTag (c # cs) 0"
  then obtain j where "tagAt (c # cs) 0 j" by (auto simp: inTag_iff)
  from tagAt_Cons_0 [OF this] assms show False by blast
qed

lemma inTag_Cons_Suc:
  assumes "\<not> (c = CHR ''<'' \<and> CHR ''>'' \<in> set cs)"
  shows "inTag (c # cs) (Suc k) = inTag cs k"
proof
  assume "inTag (c # cs) (Suc k)"
  then obtain i j where ij: "i \<le> Suc k" "Suc k \<le> j" "tagAt (c # cs) i j"
    by (auto simp: inTag_iff)
  have "i \<noteq> 0"
  proof
    assume "i = 0"
    with ij(3) have "tagAt (c # cs) 0 j" by simp
    from tagAt_Cons_0 [OF this] assms show False by blast
  qed
  then obtain i' where i': "i = Suc i'" by (cases i) auto
  from ij(2) obtain j' where j': "j = Suc j'" by (cases j) auto
  from ij i' j' have "i' \<le> k" "k \<le> j'" "tagAt cs i' j'" by (simp_all add: tagAt_Cons_Suc)
  then show "inTag cs k" by (auto simp: inTag_iff)
next
  assume "inTag cs k"
  then obtain i j where "i \<le> k" "k \<le> j" "tagAt cs i j" by (auto simp: inTag_iff)
  then have "Suc i \<le> Suc k" "Suc k \<le> Suc j" "tagAt (c # cs) (Suc i) (Suc j)"
    by (simp_all add: tagAt_Cons_Suc)
  then show "inTag (c # cs) (Suc k)" unfolding inTag_iff by blast
qed

lemma removeTags_Nil: "removeTags [] = []"
  by (simp add: removeTags_def)

lemma removeTags_keep:
  assumes "\<not> (c = CHR ''<'' \<and> CHR ''>'' \<in> set cs)"
  shows "removeTags (c # cs) = c # removeTags cs"
  by (simp add: removeTags_nths nths_Cons inTag_Cons_0 [OF assms] inTag_Cons_Suc [OF assms])

lemma nths_none: "(\<And>k. k < length t \<Longrightarrow> k \<notin> A) \<Longrightarrow> nths t A = []"
  by (simp add: nths_as_filter)

lemma removeTags_tag:
  assumes "CHR ''>'' \<notin> set m"
  shows "removeTags (CHR ''<'' # m @ CHR ''>'' # rest) = removeTags rest"
proof -
  let ?t = "CHR ''<'' # m @ [CHR ''>'']"
  let ?s = "?t @ rest"
  have whole: "tagAt ?s 0 (Suc (length m))"
  proof -
    have "\<forall>x\<in>{0<..<Suc (length m)}. ?s ! x \<noteq> CHR ''>''"
    proof
      fix x assume "x \<in> {0<..<Suc (length m)}"
      then obtain x' where x': "x = Suc x'" "x' < length m" by (cases x) auto
      then have "?s ! x = m ! x'" by (simp add: nth_append)
      moreover have "m ! x' \<in> set m" using x' by simp
      ultimately show "?s ! x \<noteq> CHR ''>''" using assms by metis
    qed
    moreover have "?s ! Suc (length m) = CHR ''>''" by (simp add: nth_append)
    ultimately show ?thesis by (simp add: tagAt_def)
  qed
  have covered: "\<And>k. k < length ?t \<Longrightarrow> inTag ?s k"
  proof -
    fix k assume "k < length ?t"
    then have "0 \<le> k" "k \<le> Suc (length m)" by simp_all
    with whole show "inTag ?s k" unfolding inTag_iff by blast
  qed
  have beyond: "\<And>k. inTag ?s (k + length ?t) = inTag rest k"
  proof
    fix k
    assume "inTag ?s (k + length ?t)"
    then obtain i j where ij: "i \<le> k + length ?t" "k + length ?t \<le> j" "tagAt ?s i j"
      by (auto simp: inTag_iff)
    have "length ?t \<le> i"
    proof (rule ccontr)
      assume "\<not> length ?t \<le> i"
      then have i: "i \<le> Suc (length m)" by simp
      have "?s ! Suc (length m) = CHR ''>''" by (simp add: nth_append)
      moreover from ij(3) have "?s ! i = CHR ''<''" by (simp add: tagAt_def)
      ultimately have "i \<noteq> Suc (length m)" by auto
      with i have "i < Suc (length m)" by simp
      moreover from ij(2) have "Suc (length m) < j" by simp
      ultimately have "Suc (length m) \<in> {i<..<j}" by simp
      with ij(3) have "?s ! Suc (length m) \<noteq> CHR ''>''" unfolding tagAt_def by blast
      then show False by (simp add: nth_append)
    qed
    then obtain i' where i': "i = i' + length ?t" by (metis le_add_diff_inverse2)
    from ij(2) obtain j' where j': "j = j' + length ?t" by (metis le_add_diff_inverse2 le_add2 le_trans)
    from ij(3) have "tagAt rest i' j'" unfolding i' j' tagAt_append_shift .
    moreover from ij i' j' have "i' \<le> k" "k \<le> j'" by simp_all
    ultimately show "inTag rest k" unfolding inTag_iff by blast
  next
    fix k
    assume "inTag rest k"
    then obtain i j where ij: "i \<le> k" "k \<le> j" "tagAt rest i j" by (auto simp: inTag_iff)
    from ij(3) have "tagAt ?s (i + length ?t) (j + length ?t)" unfolding tagAt_append_shift .
    moreover from ij have "i + length ?t \<le> k + length ?t" "k + length ?t \<le> j + length ?t"
      by simp_all
    ultimately show "inTag ?s (k + length ?t)" unfolding inTag_iff by blast
  qed
  have "removeTags ?s = nths ?t {k. \<not> inTag ?s k} @ nths rest {k. \<not> inTag ?s (k + length ?t)}"
    unfolding removeTags_nths nths_append by simp
  also have "nths ?t {k. \<not> inTag ?s k} = []"
    by (rule nths_none) (use covered in simp)
  also have "nths rest {k. \<not> inTag ?s (k + length ?t)} = removeTags rest"
    unfolding beyond removeTags_nths ..
  finally show ?thesis by simp
qed

lemma rxRemoveAll_removeTags: "rxRemoveAll tagRegex s = removeTags s"
proof (induction "length s" arbitrary: s rule: less_induct)
  case less
  show ?case
  proof (cases s)
    case Nil
    then show ?thesis by (simp add: removeTags_Nil)
  next
    case (Cons c cs)
    show ?thesis
    proof (cases "c = CHR ''<'' \<and> CHR ''>'' \<in> set cs")
      case False
      have "rxRemoveAll tagRegex (c # cs) = c # rxRemoveAll tagRegex cs"
        using False strip_other [of c cs] strip_unclosed [of cs] by blast
      moreover have "rxRemoveAll tagRegex cs = removeTags cs"
        using less [of cs] Cons by simp
      ultimately show ?thesis using removeTags_keep [OF False] Cons by simp
    next
      case True
      let ?p = "\<lambda>x. x \<noteq> CHR ''>''"
      from True have "dropWhile ?p cs \<noteq> []" by auto
      then obtain g rest where dw: "dropWhile ?p cs = g # rest" by (cases "dropWhile ?p cs") auto
      from dropWhile_not_gt_head [OF dw] have g: "g = CHR ''>''" .
      have cs: "cs = takeWhile ?p cs @ CHR ''>'' # rest"
        using takeWhile_dropWhile_id [of ?p cs] dw g by simp
      have nogt: "CHR ''>'' \<notin> set (takeWhile ?p cs)"
        using set_takeWhileD [of "CHR ''>''" ?p cs] by blast
      have "length rest < length s"
        using length_dropWhile_le [of ?p cs] dw Cons by simp
      then have "rxRemoveAll tagRegex rest = removeTags rest" by (rule less)
      moreover have "rxRemoveAll tagRegex s = rxRemoveAll tagRegex rest"
        using strip_tag [OF dw] True Cons by simp
      moreover have "removeTags s = removeTags rest"
        using removeTags_tag [OF nogt, of rest] cs True Cons by simp
      ultimately show ?thesis by simp
    qed
  qed
qed

lemma rxRemoveAll_no_open: "CHR ''<'' \<notin> set s \<Longrightarrow> rxRemoveAll tagRegex s = s"
proof (induction s)
  case Nil
  show ?case by simp
next
  case (Cons c cs)
  then have "c \<noteq> CHR ''<''" and "rxRemoveAll tagRegex cs = cs" by auto
  then show ?case using strip_other [of c cs] by simp
qed


section \<open>Profile formatter: properties\<close>

lemma exampleProfile_document:
  "\<exists>doc. profileDocument env k (exampleProfile\<lparr>raw_bot := b\<rparr>) host used = Inr doc"
proof (rule profileDocument_total)
  show "raw_followers_count (exampleProfile\<lparr>raw_bot := b\<rparr>) = Val (SafeInteger (Abs_safeInt 350000))"
    by (simp add: exampleProfile_def)
  show "raw_statuses_count (exampleProfile\<lparr>raw_bot := b\<rparr>) = Val (SafeInteger (Abs_safeInt 75000))"
    by (simp add: exampleProfile_def)
  show "raw_note (exampleProfile\<lparr>raw_bot := b\<rparr>) = Val ''<p>Founder of <b>Mastodon</b> &amp; more</p>''"
    by (simp add: exampleProfile_def)
qed

lemma exampleProfile_bot: "exampleProfile\<lparr>raw_bot := Val False\<rparr> = exampleProfile"
  by (simp add: exampleProfile_def)

text \<open>
  C8. The formatted description is the bio with every substring that starts with \<open><\<close>,
  goes on with characters other than \<open>>\<close> and ends with \<open>>\<close> removed (\<open>removeTags\<close>); the
  bio \<open><p>Hello <b>world</b></p>\<close> gives \<open>Hello world\<close>; a text without \<open><\<close> comes back
  unchanged, so entities and control characters are not decoded.
\<close>

theorem C8_description_strips_tags:
  "rxRemoveAll tagRegex s = removeTags s
   \<and> rxRemoveAll tagRegex ''<p>Hello <b>world</b></p>'' = ''Hello world''
   \<and> (CHR ''<'' \<notin> set t \<longrightarrow> rxRemoveAll tagRegex t = t)
   \<and> (raw_note p = Val s \<and> profileDocument env k p host used = Inr doc
        \<longrightarrow> description doc = removeTags s)"
proof -
  have "rxRemoveAll tagRegex ''<p>Hello <b>world</b></p>'' = ''Hello world''"
    by (simp add: tagRegex_def Lit_def)
  moreover have "description doc = removeTags s"
    if "raw_note p = Val s" "profileDocument env k p host used = Inr doc"
    using profileDocument_Inr [OF that(2)] that(1) by (auto simp: rxRemoveAll_removeTags)
  ultimately show ?thesis
    using rxRemoveAll_removeTags [of s] rxRemoveAll_no_open [of t] by blast
qed

theorem C8_description_strips_tags_witness:
  "CHR ''<'' \<notin> set ''Tom &amp; Jerry''
   \<and> rxRemoveAll tagRegex ''Tom &amp; Jerry'' = ''Tom &amp; Jerry''
   \<and> raw_note exampleProfile = Val ''<p>Founder of <b>Mastodon</b> &amp; more</p>''
   \<and> (\<exists>doc. profileDocument exampleEnv 0 exampleProfile ''mastodon.social'' Undefined = Inr doc
          \<and> description doc = ''Founder of Mastodon &amp; more'')
   \<and> removeTags ''<p>Founder of <b>Mastodon</b> &amp; more</p>'' = ''Founder of Mastodon &amp; more''"
proof -
  let ?s = "''<p>Founder of <b>Mastodon</b> &amp; more</p>''"
  have n: "raw_note exampleProfile = Val ?s" by (simp add: exampleProfile_def)
  obtain doc where d: "profileDocument exampleEnv 0 exampleProfile ''mastodon.social'' Undefined = Inr doc"
    using exampleProfile_document [of exampleEnv 0 "Val False" "''mastodon.social''" Undefined]
    unfolding exampleProfile_bot by blast
  have e: "rxRemoveAll tagRegex ?s = ''Founder of Mastodon &amp; more''"
    by (simp add: tagRegex_def Lit_def)
  have t: "CHR ''<'' \<notin> set ''Tom &amp; Jerry''" by simp
  from C8_description_strips_tags [of ?s "''Tom &amp; Jerry''" exampleProfile exampleEnv 0
         "''mastodon.social''" Undefined doc] n d e t
  show ?thesis by auto
qed

text \<open>
  C9. The \<open>verified\<close> field of the document is \<open>Bot Account\<close> when the bot flag is set,
  whatever the locked flag, else \<open>Protected\<close> when the locked flag is set, else \<open>Standard\<close>.
\<close>

theorem C9_verified_label:
  assumes "profileDocument env k p host used = Inr doc"
  shows "verified doc =
           (if raw_bot p = Val True then ''Bot Account''
            else if raw_locked p = Val True then ''Protected'' else ''Standard'')"
proof -
  from profileDocument_Inr [OF assms] have "verified doc = verifiedLabel p" by blast
  then show ?thesis
    by (cases "raw_bot p"; cases "raw_locked p") (auto simp: verifiedLabel_def truthyBool_def)
qed

theorem C9_verified_label_witness:
  "\<exists>doc. profileDocument exampleEnv 0 (exampleProfile\<lparr>raw_bot := Val True\<rparr>) ''mastodon.social''
            Undefined = Inr doc
         \<and> raw_locked (exampleProfile\<lparr>raw_bot := Val True\<rparr>) = Val True
         \<and> verified doc = ''Bot Account''"
proof -
  let ?p = "exampleProfile\<lparr>raw_bot := Val True\<rparr>"
  obtain doc where d: "profileDocument exampleEnv 0 ?p ''mastodon.social'' Undefined = Inr doc"
    using exampleProfile_document [of exampleEnv 0 "Val True" "''mastodon.social''" Undefined]
    by blast
  from C9_verified_label [OF d] have "verified doc = ''Bot Account''" by simp
  with d show ?thesis by (auto simp: exampleProfile_def)
qed



section \<open>Handle validation: the language of the regular expressions\<close>

lemma Cls_matches:
  "set (rxMatch (Cls p lo hi) s) = {rest. \<exists>w. s = w @ rest \<and> w \<in> lang (Cls p lo hi)}"
proof -
  let ?n = "length (takeWhile p s)"
  let ?m = "case hi of None \<Rightarrow> ?n | Some h \<Rightarrow> min h ?n"
  have left: "set (rxMatch (Cls p lo hi) s) = {drop k s |k. lo \<le> k \<and> k \<le> ?m}"
    by (auto simp: Let_def)
  have n_le: "?n \<le> length s" by (rule length_takeWhile_le)
  show ?thesis unfolding left
  proof (intro set_eqI iffI)
    fix rest
    assume "rest \<in> {drop k s |k. lo \<le> k \<and> k \<le> ?m}"
    then obtain k where k: "rest = drop k s" "lo \<le> k" "k \<le> ?m" by blast
    then have kn: "k \<le> ?n" by (cases hi) simp_all
    have "take k s = take k (takeWhile p s)"
      using kn takeWhile_dropWhile_id [of p s] by (metis take_all_iff take_append diff_is_0_eq take_0 append_Nil2 le_refl)
    then have "set (take k s) \<subseteq> set (takeWhile p s)" by (metis set_take_subset)
    then have allp: "\<forall>c\<in>set (take k s). p c" using set_takeWhileD by fastforce
    have len: "length (take k s) = k" using kn n_le by simp
    have "take k s \<in> lang (Cls p lo hi)"
      using allp len k(2,3) by (cases hi) simp_all
    moreover have "s = take k s @ rest" using k(1) by simp
    ultimately show "rest \<in> {rest. \<exists>w. s = w @ rest \<and> w \<in> lang (Cls p lo hi)}" by blast
  next
    fix rest
    assume "rest \<in> {rest. \<exists>w. s = w @ rest \<and> w \<in> lang (Cls p lo hi)}"
    then obtain w where w: "s = w @ rest" "w \<in> lang (Cls p lo hi)" by blast
    then have allp: "\<forall>c\<in>set w. p c" and lo: "lo \<le> length w" by simp_all
    have "takeWhile p s = w @ takeWhile p rest" using w(1) allp by simp
    then have "length w \<le> ?n" by simp
    moreover have "case hi of None \<Rightarrow> True | Some h \<Rightarrow> length w \<le> h" using w(2) by simp
    ultimately have "length w \<le> ?m" by (cases hi) simp_all
    moreover have "rest = drop (length w) s" using w(1) by simp
    ultimately show "rest \<in> {drop k s |k. lo \<le> k \<and> k \<le> ?m}" using lo by blast
  qed
qed

lemma rxMatch_lang: "set (rxMatch r s) = {rest. \<exists>w. s = w @ rest \<and> w \<in> lang r}"
proof (induction r arbitrary: s)
  case (Cls p lo hi)
  show ?case by (rule Cls_matches)
next
  case (Seq a b)
  show ?case
  proof (intro set_eqI iffI)
    fix rest
    assume "rest \<in> set (rxMatch (Seq a b) s)"
    then obtain mid where "mid \<in> set (rxMatch a s)" "rest \<in> set (rxMatch b mid)" by auto
    then obtain u v where "s = u @ mid" "u \<in> lang a" "mid = v @ rest" "v \<in> lang b"
      unfolding Seq.IH by blast
    then have "s = (u @ v) @ rest" "u @ v \<in> lang (Seq a b)" by auto
    then show "rest \<in> {rest. \<exists>w. s = w @ rest \<and> w \<in> lang (Seq a b)}" by blast
  next
    fix rest
    assume "rest \<in> {rest. \<exists>w. s = w @ rest \<and> w \<in> lang (Seq a b)}"
    then obtain u v where uv: "s = (u @ v) @ rest" "u \<in> lang a" "v \<in> lang b" by auto
    then have "v @ rest \<in> set (rxMatch a s)" unfolding Seq.IH by auto
    moreover have "rest \<in> set (rxMatch b (v @ rest))" unfolding Seq.IH using uv(3) by auto
    ultimately show "rest \<in> set (rxMatch (Seq a b) s)" by auto
  qed
next
  case (Opt a)
  show ?case by (auto simp: Opt.IH)
qed

lemma rxTest_lang: "rxTest r s \<longleftrightarrow> s \<in> lang r"
  by (simp add: rxTest_def rxMatch_lang)

lemma lang_Lit: "lang (Lit c) = {[c]}"
proof (intro set_eqI iffI)
  fix w assume "w \<in> lang (Lit c)"
  then have "length w = 1" "\<forall>x\<in>set w. x = c" by (simp_all add: Lit_def)
  then have "w = [c]" by (cases w) auto
  then show "w \<in> {[c]}" by simp
next
  fix w assume "w \<in> {[c]}"
  then show "w \<in> lang (Lit c)" by (simp add: Lit_def)
qed

lemma lang_username: "w \<in> lang (Cls wordChar 3 (Some 30)) \<longleftrightarrow> usernameOk w"
  by (auto simp: usernameOk_def)

lemma lang_atDomain: "w \<in> lang atDomain \<longleftrightarrow> (\<exists>d. domainOk d \<and> w = ''@'' @ d)"
proof
  assume "w \<in> lang atDomain"
  then obtain a t where "w = ''@'' @ a @ ''.'' @ t" "a \<in> lang (Cls domainChar 1 None)"
      "t \<in> lang (Cls alphaChar 2 None)"
    unfolding atDomain_def lang.simps(2) lang_Lit by auto
  then have "a \<noteq> []" "\<forall>c\<in>set a. domainChar c" "2 \<le> length t" "\<forall>c\<in>set t. alphaChar c"
    and w: "w = ''@'' @ (a @ ''.'' @ t)"
    by auto
  then have "domainOk (a @ ''.'' @ t)" unfolding domainOk_def by blast
  with w show "\<exists>d. domainOk d \<and> w = ''@'' @ d" by blast
next
  assume "\<exists>d. domainOk d \<and> w = ''@'' @ d"
  then obtain a t where w: "w = ''@'' @ a @ ''.'' @ t" and a: "a \<noteq> []" "\<forall>c\<in>set a. domainChar c"
    and t: "2 \<le> length t" "\<forall>c\<in>set t. alphaChar c"
    unfolding domainOk_def by auto
  from a have a': "a \<in> lang (Cls domainChar 1 None)" by (cases a) auto
  from t have t': "t \<in> lang (Cls alphaChar 2 None)" by simp
  have "''.'' @ t \<in> lang (Seq (Lit CHR ''.'') (Cls alphaChar 2 None))"
    unfolding lang.simps(2) lang_Lit using t' by blast
  with a' have "a @ ''.'' @ t \<in> lang (Seq (Cls domainChar 1 None) (Seq (Lit CHR ''.'') (Cls alphaChar 2 None)))"
    unfolding lang.simps(2) [of "Cls domainChar 1 None"] by blast
  then show "w \<in> lang atDomain"
    unfolding atDomain_def lang.simps(2) [of "Lit CHR ''@''"] lang_Lit w by blast
qed

lemma handleRegex_iff:
  "rxTest handleRegex h \<longleftrightarrow>
     (usernameOk h \<or> (\<exists>u d. usernameOk u \<and> domainOk d \<and> h = u @ ''@'' @ d))"
  unfolding rxTest_lang handleRegex_def lang.simps(2) lang.simps(3) lang_username
  by (auto simp: lang_atDomain)

lemma handleRegex_single_iff:
  "rxTest handleRegex_single h \<longleftrightarrow> (\<exists>u d. usernameOk u \<and> domainOk d \<and> h = u @ ''@'' @ d)"
  unfolding rxTest_lang handleRegex_single_def lang.simps(2) lang_username
  by (auto simp: lang_atDomain)

section \<open>The entry points on well-formed handles\<close>

lemma at_sign_classes:
  "\<not> wordChar CHR ''@''" "\<not> domainChar CHR ''@''" "\<not> alphaChar CHR ''@''"
  by (simp_all add: wordChar_def domainChar_def alnumChar_def alphaChar_def inRange_def)

lemma usernameOk_no_at: "usernameOk u \<Longrightarrow> CHR ''@'' \<notin> set u"
  using at_sign_classes(1) by (auto simp: usernameOk_def)

lemma usernameOk_nonempty: "usernameOk u \<Longrightarrow> u \<noteq> []"
  by (auto simp: usernameOk_def)

lemma alpha_is_domainChar: "alphaChar c \<Longrightarrow> domainChar c"
  by (simp add: domainChar_def alnumChar_def)

lemma domainOk_no_at: "domainOk d \<Longrightarrow> CHR ''@'' \<notin> set d"
  using at_sign_classes(2,3) by (auto simp: domainOk_def)

lemma splitOn_none: "sep \<notin> set s \<Longrightarrow> splitOn sep s = [s]"
  by (induction s) auto

lemma splitOn_one: "sep \<notin> set u \<Longrightarrow> splitOn sep (u @ sep # d) = u # splitOn sep d"
  by (induction u) auto

lemma splitOn_handle:
  assumes "CHR ''@'' \<notin> set u" "CHR ''@'' \<notin> set d"
  shows "splitOn CHR ''@'' (u @ ''@'' @ d) = [u, d]"
  using splitOn_one [OF assms(1), of d] splitOn_none [OF assms(2)] by simp

lemma fetch_snd: "snd (fetchFromInstance env u i) = [lookupUrl i u]"
  by (simp add: fetchFromInstance_def Let_def split: outcome.splits)

lemma fetch_fst:
  "fst (fetchFromInstance env u i) =
     (case upstream env (lookupUrl i u) of Resolved d \<Rightarrow> Found d i | Rejected e \<Rightarrow> Failed e i)"
  by (simp add: fetchFromInstance_def Let_def split: outcome.splits)

lemma fetch_instanceOf: "instanceOf (fst (fetchFromInstance env u i)) = i"
  by (simp add: fetch_fst instanceOf_def split: outcome.splits)

lemma fanout_calls:
  "concat (map snd (map (fetchFromInstance env u) is)) = map (\<lambda>i. lookupUrl i u) is"
  by (induction "is") (simp_all add: fetch_snd)

lemma getMastodonProfile_username:
  assumes "CHR ''@'' \<notin> set h"
  shows "getMastodonProfile env h =
           (if filter isSuccess (lookupResults env h) = []
            then Inl (newError (''No account found for '' @ h @ '' on instances: ''
                                  @ join '', '' (instances env)))
            else Inr (Many (filter isSuccess (lookupResults env h))),
            map (\<lambda>i. lookupUrl i h) (instances env))"
  using assms
  by (simp add: getMastodonProfile_def Let_def splitOn_none elemAt_def interp_def
        fetch_snd lookupResults_def comp_def)

lemma getMastodonProfile_full:
  assumes "CHR ''@'' \<notin> set u" "CHR ''@'' \<notin> set d"
  shows "getMastodonProfile env (u @ ''@'' @ d) =
           (Inr (One (fst (fetchFromInstance env u d))), [lookupUrl d u])"
  using splitOn_handle [OF assms]
  by (simp add: getMastodonProfile_def Let_def elemAt_def interp_def fetch_snd)

lemma lookupEndpoint_invalid:
  assumes "\<not> rxTest handleRegex h"
  shows "status (fst (lookupEndpoint env h)) = 400 \<and> snd (lookupEndpoint env h) = []"
  using assms by (simp add: lookupEndpoint_def)

lemma lookupEndpoint_single_invalid:
  assumes "\<not> rxTest handleRegex_single h"
  shows "status (fst (lookupEndpoint_single env h)) = 400 \<and> snd (lookupEndpoint_single env h) = []"
  using assms by (simp add: lookupEndpoint_single_def)

lemma lookupEndpoint_username:
  assumes "usernameOk h"
  shows "lookupEndpoint env h =
           (let succ = filter isSuccess (lookupResults env h)
            in if succ = [] then
                 serverError env (newError (''No account found for '' @ h @ '' on instances: ''
                                              @ join '', '' (instances env)))
               else if length succ > 1 then
                 (case processAll env 0 succ of
                    Inl e \<Rightarrow> serverError env e
                  | Inr profiles \<Rightarrow>
                      \<lparr>status = 200,
                       body = UsersBody profiles
                         (''Multiple accounts found for '' @ h
                            @ ''. Use instance_used or profile_link to select the correct account.'')\<rparr>)
               else singleProfile env (dataOf (hd succ)) (instanceOf (hd succ)),
            map (\<lambda>i. lookupUrl i h) (instances env))"
proof -
  have h: "h \<noteq> []" "rxTest handleRegex h" "CHR ''@'' \<notin> set h"
    using assms usernameOk_nonempty usernameOk_no_at handleRegex_iff by blast+
  have user: "interp (elemAt (splitOn CHR ''@'' h) 0) = h"
    using h(3) by (simp add: splitOn_none elemAt_def interp_def)
  show ?thesis
  proof (cases "filter isSuccess (lookupResults env h)")
    case Nil
    then show ?thesis
      using h by (simp add: lookupEndpoint_def getMastodonProfile_username)
  next
    case (Cons r rs)
    then show ?thesis
      unfolding lookupEndpoint_def user
      using h by (simp add: getMastodonProfile_username Let_def)
  qed
qed

lemma lookupEndpoint_full:
  assumes "usernameOk u" "domainOk d"
  shows "lookupEndpoint env (u @ ''@'' @ d) =
           (case upstream env (lookupUrl d u) of
              Resolved dat \<Rightarrow> singleProfile env dat d
            | Rejected e \<Rightarrow>
                \<lparr>status = statusOr e 404,
                 body = ErrorBody (''Mastodon account '' @ (u @ ''@'' @ d)
                          @ '' not found, suspended, or instance '' @ d @ '' unavailable'')\<rparr>,
            [lookupUrl d u])"
proof -
  have t: "rxTest handleRegex (u @ ''@'' @ d)" using assms handleRegex_iff by blast
  have n: "CHR ''@'' \<notin> set u" "CHR ''@'' \<notin> set d"
    using assms usernameOk_no_at domainOk_no_at by blast+
  show ?thesis
    using t getMastodonProfile_full [OF n, of env] splitOn_handle [OF n]
    by (simp add: lookupEndpoint_def fetch_fst elemAt_def interp_def split: outcome.splits)
qed

lemma getMastodonProfile_single_full:
  assumes "CHR ''@'' \<notin> set u" "CHR ''@'' \<notin> set d"
  shows "getMastodonProfile_single env (u @ ''@'' @ d) =
           (case upstream env (lookupUrl d u) of Resolved dat \<Rightarrow> Inr dat | Rejected e \<Rightarrow> Inl e,
            [lookupUrl d u])"
  using splitOn_handle [OF assms]
  by (simp add: getMastodonProfile_single_def Let_def elemAt_def interp_def split: outcome.splits)

lemma lookupEndpoint_single_rejected:
  assumes "usernameOk u" "domainOk d" "upstream env (lookupUrl d u) = Rejected e"
  shows "lookupEndpoint_single env (u @ ''@'' @ d) = (catch_single (u @ ''@'' @ d) e, [lookupUrl d u])"
proof -
  have t: "rxTest handleRegex_single (u @ ''@'' @ d)" using assms handleRegex_single_iff by blast
  have n: "CHR ''@'' \<notin> set u" "CHR ''@'' \<notin> set d"
    using assms usernameOk_no_at domainOk_no_at by blast+
  show ?thesis
    using t getMastodonProfile_single_full [OF n, of env] assms(3)
    by (simp add: lookupEndpoint_single_def)
qed


section \<open>Handle validation: properties\<close>

lemmas char_classes =
  wordChar_def domainChar_def alnumChar_def alphaChar_def inRange_def

lemmas regex_eval =
  rxTest_def handleRegex_def handleRegex_single_def atDomain_def Lit_def char_classes

lemmas url_eval =
  lookupUrl_def encodeURIComponent_def percentByte_def uriUnreserved_def alnumChar_def alphaChar_def
  inRange_def

lemma lookupEndpoint_single_calls:
  assumes "usernameOk u" "domainOk d"
  shows "snd (lookupEndpoint_single env (u @ ''@'' @ d)) = [lookupUrl d u]"
proof -
  have t: "rxTest handleRegex_single (u @ ''@'' @ d)" using assms handleRegex_single_iff by blast
  have n: "CHR ''@'' \<notin> set u" "CHR ''@'' \<notin> set d"
    using assms usernameOk_no_at domainOk_no_at by blast+
  show ?thesis
    using t getMastodonProfile_single_full [OF n, of env]
    by (simp add: lookupEndpoint_single_def split: outcome.splits)
qed

lemma usernameOk_gargron: "usernameOk ''gargron''"
  by (simp add: usernameOk_def char_classes)

lemma usernameOk_Gargron: "usernameOk ''Gargron''"
  by (simp add: usernameOk_def char_classes)

lemma usernameOk_nobody: "usernameOk ''nobody''"
  by (simp add: usernameOk_def char_classes)

lemma domainOk_mastodon_social: "domainOk ''mastodon.social''"
proof -
  have "''mastodon.social'' = ''mastodon'' @ ''.'' @ ''social''" by simp
  moreover have "\<forall>c\<in>set ''mastodon''. domainChar c" by (simp add: char_classes)
  moreover have "\<forall>c\<in>set ''social''. alphaChar c" by (simp add: char_classes)
  ultimately show ?thesis unfolding domainOk_def
    by (intro exI [of _ "''mastodon''"] exI [of _ "''social''"]) simp
qed

lemma domainOk_example_com: "domainOk ''example.com''"
proof -
  have "''example.com'' = ''example'' @ ''.'' @ ''com''" by simp
  moreover have "\<forall>c\<in>set ''example''. domainChar c" by (simp add: char_classes)
  moreover have "\<forall>c\<in>set ''com''. alphaChar c" by (simp add: char_classes)
  ultimately show ?thesis unfolding domainOk_def
    by (intro exI [of _ "''example''"] exI [of _ "''com''"]) simp
qed

text \<open>
  C3 (as amended). The multi-instance entry point accepts a handle exactly when it is a
  username (3 to 30 letters, digits or underscores), optionally followed by \<open>@\<close> and a
  domain; the single-instance entry point accepts it exactly when the \<open>@\<close> and the domain
  are present. Either entry point answers a handle it does not accept with status 400
  and requests nothing upstream; an accepted handle goes on to the lookup (one request
  per configured instance for a bare username, one request for a full handle).
\<close>

theorem C3_handle_validation:
  "(rxTest handleRegex h \<longleftrightarrow>
      (usernameOk h \<or> (\<exists>u d. usernameOk u \<and> domainOk d \<and> h = u @ ''@'' @ d)))
   \<and> (rxTest handleRegex_single h \<longleftrightarrow>
        (\<exists>u d. usernameOk u \<and> domainOk d \<and> h = u @ ''@'' @ d))
   \<and> (\<not> rxTest handleRegex g \<longrightarrow>
        status (fst (lookupEndpoint env g)) = 400 \<and> snd (lookupEndpoint env g) = [])
   \<and> (\<not> rxTest handleRegex_single g' \<longrightarrow>
        status (fst (lookupEndpoint_single env g')) = 400 \<and> snd (lookupEndpoint_single env g') = [])
   \<and> (usernameOk v \<longrightarrow>
        snd (lookupEndpoint env v) = map (\<lambda>i. lookupUrl i v) (instances env))
   \<and> (usernameOk v \<and> domainOk w \<longrightarrow>
        snd (lookupEndpoint env (v @ ''@'' @ w)) = [lookupUrl w v]
        \<and> snd (lookupEndpoint_single env (v @ ''@'' @ w)) = [lookupUrl w v])"
proof -
  have "snd (lookupEndpoint env v) = map (\<lambda>i. lookupUrl i v) (instances env)" if "usernameOk v"
    using lookupEndpoint_username [OF that, of env] by (simp add: Let_def)
  moreover have "snd (lookupEndpoint env (v @ ''@'' @ w)) = [lookupUrl w v]"
    if "usernameOk v" "domainOk w"
    using lookupEndpoint_full [OF that, of env] by simp
  ultimately show ?thesis
    using handleRegex_iff [of h] handleRegex_single_iff [of h]
      lookupEndpoint_invalid [of g env] lookupEndpoint_single_invalid [of g' env]
      lookupEndpoint_single_calls [of v w env]
    by blast
qed

theorem C3_handle_validation_witness:
  "\<not> rxTest handleRegex ''ab'' \<and> status (fst (lookupEndpoint exampleEnv ''ab'')) = 400
   \<and> snd (lookupEndpoint exampleEnv ''ab'') = []
   \<and> \<not> rxTest handleRegex_single ''gargron''
   \<and> status (fst (lookupEndpoint_single exampleEnv ''gargron'')) = 400
   \<and> snd (lookupEndpoint_single exampleEnv ''gargron'') = []
   \<and> usernameOk ''gargron'' \<and> rxTest handleRegex ''gargron''
   \<and> snd (lookupEndpoint exampleEnv ''gargron'') =
        [''https://mastodon.social/api/v1/accounts/lookup?acct=gargron'',
         ''https://fosstodon.org/api/v1/accounts/lookup?acct=gargron'',
         ''https://mstdn.social/api/v1/accounts/lookup?acct=gargron'']
   \<and> domainOk ''mastodon.social''
   \<and> snd (lookupEndpoint exampleEnv ''gargron@mastodon.social'') =
        [''https://mastodon.social/api/v1/accounts/lookup?acct=gargron'']
   \<and> snd (lookupEndpoint_single exampleEnv ''gargron@mastodon.social'') =
        [''https://mastodon.social/api/v1/accounts/lookup?acct=gargron'']"
proof -
  have a: "\<not> rxTest handleRegex ''ab''" by (simp add: regex_eval)
  have b: "\<not> rxTest handleRegex_single ''gargron''" by (simp add: regex_eval)
  note c = C3_handle_validation [of "''gargron''" "''ab''" exampleEnv "''gargron''" "''gargron''"
      "''mastodon.social''"]
  have urls: "map (\<lambda>i. lookupUrl i ''gargron'') (instances exampleEnv) =
        [''https://mastodon.social/api/v1/accounts/lookup?acct=gargron'',
         ''https://fosstodon.org/api/v1/accounts/lookup?acct=gargron'',
         ''https://mstdn.social/api/v1/accounts/lookup?acct=gargron'']"
    "lookupUrl ''mastodon.social'' ''gargron'' =
       ''https://mastodon.social/api/v1/accounts/lookup?acct=gargron''"
    by (simp_all add: exampleEnv_def url_eval)
  have p3: "status (fst (lookupEndpoint exampleEnv ''ab'')) = 400
            \<and> snd (lookupEndpoint exampleEnv ''ab'') = []"
    using c a by blast
  have p4: "status (fst (lookupEndpoint_single exampleEnv ''gargron'')) = 400
            \<and> snd (lookupEndpoint_single exampleEnv ''gargron'') = []"
    using c b by blast
  have p5: "snd (lookupEndpoint exampleEnv ''gargron'') =
              map (\<lambda>i. lookupUrl i ''gargron'') (instances exampleEnv)"
    using c usernameOk_gargron by blast
  have p6: "snd (lookupEndpoint exampleEnv (''gargron'' @ ''@'' @ ''mastodon.social'')) =
              [lookupUrl ''mastodon.social'' ''gargron'']
            \<and> snd (lookupEndpoint_single exampleEnv (''gargron'' @ ''@'' @ ''mastodon.social'')) =
              [lookupUrl ''mastodon.social'' ''gargron'']"
    using c usernameOk_gargron domainOk_mastodon_social by blast
  have t: "rxTest handleRegex ''gargron''" by (simp add: regex_eval)
  show ?thesis
    using a b t p3 p4 p5 p6 usernameOk_gargron domainOk_mastodon_social
    by (simp add: urls)
qed

text \<open>
  The handle \<open>gargron\<close> is a username, yet the single-instance entry point rejects it.
\<close>

theorem C3_single_rejects_username_counterexample:
  "usernameOk ''gargron''
   \<and> lookupEndpoint_single exampleEnv ''gargron'' =
       (\<lparr>status = 400,
         body = ErrorBody ''Invalid Mastodon handle format. Use username@instance.social (3-30 chars username, valid domain).''\<rparr>,
        [])"
  using usernameOk_gargron by (simp add: lookupEndpoint_single_def regex_eval)


section \<open>Instance client and fan-out: properties\<close>

text \<open>
  C4 (as amended). In the multi-instance entry point \<open>fetchFromInstance\<close> never throws: a
  rejected upstream call comes back as the error half of the result, tagged with the
  instance, and a resolved one as the data half. A fan-out therefore has exactly one
  result per configured instance, in order, every instance is requested whatever the
  others answer, and the successes among all results are what \<open>getMastodonProfile\<close>
  returns. In the single-instance entry point \<open>getMastodonProfile\<close> throws the upstream
  error again, to the route's handler.
\<close>

theorem C4_lookup_errors_captured:
  "(upstream env (lookupUrl i u) = Rejected e \<longrightarrow>
      fetchFromInstance env u i = (Failed e i, [lookupUrl i u]))
   \<and> (upstream env (lookupUrl i u) = Resolved dat \<longrightarrow>
      fetchFromInstance env u i = (Found dat i, [lookupUrl i u]))
   \<and> length (lookupResults env u) = length (instances env)
   \<and> map instanceOf (lookupResults env u) = instances env
   \<and> (CHR ''@'' \<notin> set h \<longrightarrow>
        snd (getMastodonProfile env h) = map (\<lambda>i. lookupUrl i h) (instances env)
        \<and> fst (getMastodonProfile env h) =
            (if filter isSuccess (lookupResults env h) = []
             then Inl (newError (''No account found for '' @ h @ '' on instances: ''
                                   @ join '', '' (instances env)))
             else Inr (Many (filter isSuccess (lookupResults env h)))))
   \<and> (CHR ''@'' \<notin> set v \<and> CHR ''@'' \<notin> set d \<and> upstream env (lookupUrl d v) = Rejected e' \<longrightarrow>
        fst (getMastodonProfile_single env (v @ ''@'' @ d)) = Inl e')"
proof -
  have "map instanceOf (lookupResults env u) = instances env"
    by (simp add: lookupResults_def comp_def fetch_instanceOf)
  moreover have "fst (getMastodonProfile_single env (v @ ''@'' @ d)) = Inl e'"
    if "CHR ''@'' \<notin> set v" "CHR ''@'' \<notin> set d" "upstream env (lookupUrl d v) = Rejected e'"
    using getMastodonProfile_single_full [OF that(1,2), of env] that(3) by simp
  moreover have "length (lookupResults env u) = length (instances env)"
    by (simp add: lookupResults_def)
  ultimately show ?thesis
    using getMastodonProfile_username [of h env]
    by (auto simp: fetchFromInstance_def Let_def)
qed

lemma exampleEnv_urls:
  "lookupUrl ''mastodon.social'' ''Gargron'' = ''https://mastodon.social/api/v1/accounts/lookup?acct=Gargron''"
  "lookupUrl ''fosstodon.org'' ''Gargron'' = ''https://fosstodon.org/api/v1/accounts/lookup?acct=Gargron''"
  "lookupUrl ''mstdn.social'' ''Gargron'' = ''https://mstdn.social/api/v1/accounts/lookup?acct=Gargron''"
  "lookupUrl ''fosstodon.org'' ''nobody'' = ''https://fosstodon.org/api/v1/accounts/lookup?acct=nobody''"
  "lookupUrl ''example.com'' ''nobody'' = ''https://example.com/api/v1/accounts/lookup?acct=nobody''"
  by (simp_all add: url_eval)

lemma exampleEnv_upstream:
  "upstream exampleEnv ''https://mastodon.social/api/v1/accounts/lookup?acct=Gargron'' = Resolved (Val exampleProfile)"
  "upstream exampleEnv ''https://fosstodon.org/api/v1/accounts/lookup?acct=Gargron'' = Rejected notFound404"
  "upstream exampleEnv ''https://mstdn.social/api/v1/accounts/lookup?acct=Gargron'' = Rejected notFound404"
  "upstream exampleEnv ''https://fosstodon.org/api/v1/accounts/lookup?acct=nobody'' = Rejected notFound404"
  "upstream exampleEnv ''https://example.com/api/v1/accounts/lookup?acct=nobody'' = Rejected notFound404"
  by (simp_all add: exampleEnv_def)

lemma exampleEnv_results:
  "lookupResults exampleEnv ''Gargron'' =
     [Found (Val exampleProfile) ''mastodon.social'', Failed notFound404 ''fosstodon.org'',
      Failed notFound404 ''mstdn.social'']"
  by (simp add: lookupResults_def fetch_fst exampleEnv_def url_eval)

theorem C4_lookup_errors_captured_witness:
  "upstream exampleEnv (lookupUrl ''fosstodon.org'' ''Gargron'') = Rejected notFound404
   \<and> fetchFromInstance exampleEnv ''Gargron'' ''fosstodon.org'' =
        (Failed notFound404 ''fosstodon.org'',
         [''https://fosstodon.org/api/v1/accounts/lookup?acct=Gargron''])
   \<and> upstream exampleEnv (lookupUrl ''mastodon.social'' ''Gargron'') = Resolved (Val exampleProfile)
   \<and> CHR ''@'' \<notin> set ''Gargron''
   \<and> snd (getMastodonProfile exampleEnv ''Gargron'') =
        [''https://mastodon.social/api/v1/accounts/lookup?acct=Gargron'',
         ''https://fosstodon.org/api/v1/accounts/lookup?acct=Gargron'',
         ''https://mstdn.social/api/v1/accounts/lookup?acct=Gargron'']
   \<and> fst (getMastodonProfile exampleEnv ''Gargron'') =
        Inr (Many [Found (Val exampleProfile) ''mastodon.social''])
   \<and> CHR ''@'' \<notin> set ''nobody'' \<and> CHR ''@'' \<notin> set ''fosstodon.org''
   \<and> upstream exampleEnv (lookupUrl ''fosstodon.org'' ''nobody'') = Rejected notFound404
   \<and> fst (getMastodonProfile_single exampleEnv ''nobody@fosstodon.org'') = Inl notFound404"
proof -
  have r: "upstream exampleEnv (lookupUrl ''fosstodon.org'' ''Gargron'') = Rejected notFound404"
    and s: "upstream exampleEnv (lookupUrl ''mastodon.social'' ''Gargron'') = Resolved (Val exampleProfile)"
    and n: "upstream exampleEnv (lookupUrl ''fosstodon.org'' ''nobody'') = Rejected notFound404"
    by (simp_all add: exampleEnv_urls exampleEnv_upstream)
  have a: "CHR ''@'' \<notin> set ''Gargron''" "CHR ''@'' \<notin> set ''nobody''"
    "CHR ''@'' \<notin> set ''fosstodon.org''" by simp_all
  note c = C4_lookup_errors_captured [of exampleEnv "''fosstodon.org''" "''Gargron''" notFound404
      "Val exampleProfile" "''Gargron''" "''nobody''" "''fosstodon.org''" notFound404]
  have p1: "fetchFromInstance exampleEnv ''Gargron'' ''fosstodon.org'' =
              (Failed notFound404 ''fosstodon.org'', [lookupUrl ''fosstodon.org'' ''Gargron''])"
    using c r by blast
  have p5: "snd (getMastodonProfile exampleEnv ''Gargron'') =
              map (\<lambda>i. lookupUrl i ''Gargron'') (instances exampleEnv)
            \<and> fst (getMastodonProfile exampleEnv ''Gargron'') =
              (if filter isSuccess (lookupResults exampleEnv ''Gargron'') = []
               then Inl (newError (''No account found for '' @ ''Gargron'' @ '' on instances: ''
                                     @ join '', '' (instances exampleEnv)))
               else Inr (Many (filter isSuccess (lookupResults exampleEnv ''Gargron''))))"
    using c a(1) by blast
  have p6: "fst (getMastodonProfile_single exampleEnv (''nobody'' @ ''@'' @ ''fosstodon.org'')) =
              Inl notFound404"
    using c a(2,3) n by blast
  have succ: "filter isSuccess (lookupResults exampleEnv ''Gargron'') =
                [Found (Val exampleProfile) ''mastodon.social'']"
    by (simp add: exampleEnv_results isSuccess_def truthyStr_def exampleProfile_def)
  have insts: "map (\<lambda>i. lookupUrl i ''Gargron'') (instances exampleEnv) =
        [''https://mastodon.social/api/v1/accounts/lookup?acct=Gargron'',
         ''https://fosstodon.org/api/v1/accounts/lookup?acct=Gargron'',
         ''https://mstdn.social/api/v1/accounts/lookup?acct=Gargron'']"
    by (simp add: exampleEnv_def url_eval)
  show ?thesis
    using r s n a p1 p5 p6 by (simp add: succ insts exampleEnv_urls)
qed

text \<open>
  The instance client of the single-instance entry point throws an upstream 404 to its
  caller.
\<close>

theorem C4_single_rethrows_counterexample:
  "upstream exampleEnv ''https://fosstodon.org/api/v1/accounts/lookup?acct=nobody'' = Rejected notFound404
   \<and> getMastodonProfile_single exampleEnv ''nobody@fosstodon.org'' =
        (Inl notFound404, [''https://fosstodon.org/api/v1/accounts/lookup?acct=nobody''])"
  by (simp add: getMastodonProfile_single_def Let_def elemAt_def interp_def exampleEnv_urls
        exampleEnv_upstream)


section \<open>Upstream failures: properties\<close>

text \<open>
  C6 (as amended). A full handle \<open>user@instance\<close> whose upstream call is rejected:
  the single-instance entry point answers an upstream 404 or 403 with status 404 and a
  message naming the handle (and so the instance), and any other failure with the
  upstream's status, or 500 when there is none, and a body carrying the error message and
  the upstream's response body. The multi-instance entry point answers every such failure
  with the upstream's status, or 404 when there is none, and a message naming the
  instance; only that one instance is requested.
\<close>

theorem C6_upstream_failure_responses:
  assumes "usernameOk u" and "domainOk d" and "upstream env (lookupUrl d u) = Rejected e"
  shows "lookupEndpoint_single env (u @ ''@'' @ d) =
           (if (\<exists>dat. response e = Some (404, dat) \<or> response e = Some (403, dat))
            then \<lparr>status = 404,
                  body = ErrorBody (''Mastodon account '' @ (u @ ''@'' @ d)
                           @ '' not found, suspended, or instance unavailable'')\<rparr>
            else \<lparr>status = statusOr e 500, body = ErrorDetailsBody (messageOr e) (detailsOr e)\<rparr>,
            [lookupUrl d u])
         \<and> lookupEndpoint env (u @ ''@'' @ d) =
           (\<lparr>status = statusOr e 404,
             body = ErrorBody (''Mastodon account '' @ (u @ ''@'' @ d)
                      @ '' not found, suspended, or instance '' @ d @ '' unavailable'')\<rparr>,
            [lookupUrl d u])
         \<and> (response e = None \<longrightarrow>
               statusOr e 500 = 500 \<and> statusOr e 404 = 404 \<and> detailsOr e = ''No additional details'')
         \<and> (\<forall>st x. response e = Some (st, Data x) \<and> st \<noteq> 0 \<longrightarrow>
               statusOr e 500 = st \<and> statusOr e 404 = st \<and> detailsOr e = x)
         \<and> (message e \<noteq> [] \<longrightarrow> messageOr e = message e)"
proof -
  have single: "lookupEndpoint_single env (u @ ''@'' @ d) =
           (if (\<exists>dat. response e = Some (404, dat) \<or> response e = Some (403, dat))
            then \<lparr>status = 404,
                  body = ErrorBody (''Mastodon account '' @ (u @ ''@'' @ d)
                           @ '' not found, suspended, or instance unavailable'')\<rparr>
            else \<lparr>status = statusOr e 500, body = ErrorDetailsBody (messageOr e) (detailsOr e)\<rparr>,
            [lookupUrl d u])"
    unfolding lookupEndpoint_single_rejected [OF assms]
    by (cases "response e") (auto simp: catch_single_def)
  have multi: "lookupEndpoint env (u @ ''@'' @ d) =
           (\<lparr>status = statusOr e 404,
             body = ErrorBody (''Mastodon account '' @ (u @ ''@'' @ d)
                      @ '' not found, suspended, or instance '' @ d @ '' unavailable'')\<rparr>,
            [lookupUrl d u])"
    using lookupEndpoint_full [OF assms(1,2), of env] assms(3) by simp
  have "statusOr e 500 = 500 \<and> statusOr e 404 = 404 \<and> detailsOr e = ''No additional details''"
    if "response e = None"
    using that by (simp add: statusOr_def detailsOr_def)
  moreover have "statusOr e 500 = st \<and> statusOr e 404 = st \<and> detailsOr e = x"
    if "response e = Some (st, Data x) \<and> st \<noteq> 0" for st x
    using that by (simp add: statusOr_def detailsOr_def)
  moreover have "message e \<noteq> [] \<longrightarrow> messageOr e = message e"
    by (simp add: messageOr_def)
  ultimately show ?thesis using single multi by blast
qed

lemma nobody_example_url:
  "lookupUrl ''example.com'' ''nobody'' = ''https://example.com/api/v1/accounts/lookup?acct=nobody''"
  by (simp add: url_eval)

theorem C6_upstream_failure_responses_witness:
  "usernameOk ''nobody'' \<and> domainOk ''example.com''
   \<and> upstream (exampleEnv\<lparr>upstream := \<lambda>url. Rejected unavailable503\<rparr>)
        (lookupUrl ''example.com'' ''nobody'') = Rejected unavailable503
   \<and> response unavailable503 = Some (503, Data ''Service Unavailable'') \<and> (503::nat) \<noteq> 0
   \<and> message unavailable503 \<noteq> []
   \<and> lookupEndpoint_single (exampleEnv\<lparr>upstream := \<lambda>url. Rejected unavailable503\<rparr>)
        ''nobody@example.com'' =
       (\<lparr>status = 503,
         body = ErrorDetailsBody ''Request failed with status code 503'' ''Service Unavailable''\<rparr>,
        [''https://example.com/api/v1/accounts/lookup?acct=nobody''])
   \<and> lookupEndpoint (exampleEnv\<lparr>upstream := \<lambda>url. Rejected unavailable503\<rparr>)
        ''nobody@example.com'' =
       (\<lparr>status = 503,
         body = ErrorBody ''Mastodon account nobody@example.com not found, suspended, or instance example.com unavailable''\<rparr>,
        [''https://example.com/api/v1/accounts/lookup?acct=nobody''])"
proof -
  let ?env = "exampleEnv\<lparr>upstream := \<lambda>url. Rejected unavailable503\<rparr>"
  have up: "upstream ?env (lookupUrl ''example.com'' ''nobody'') = Rejected unavailable503"
    by simp
  have r: "response unavailable503 = Some (503, Data ''Service Unavailable'')"
    and m: "message unavailable503 = ''Request failed with status code 503''"
    by (simp_all add: unavailable503_def)
  note c = C6_upstream_failure_responses [OF usernameOk_nobody domainOk_example_com up]
  from c have q: "\<forall>st x. response unavailable503 = Some (st, Data x) \<and> st \<noteq> 0 \<longrightarrow>
      statusOr unavailable503 500 = st \<and> statusOr unavailable503 404 = st
      \<and> detailsOr unavailable503 = x"
    by blast
  from q [rule_format, of 503 "''Service Unavailable''"] r
  have v: "statusOr unavailable503 500 = 503 \<and> statusOr unavailable503 404 = 503
      \<and> detailsOr unavailable503 = ''Service Unavailable''"
    by simp
  from c have "message unavailable503 \<noteq> [] \<longrightarrow> messageOr unavailable503 = message unavailable503"
    by blast
  with m have w: "messageOr unavailable503 = ''Request failed with status code 503''"
    by simp
  from c have s: "lookupEndpoint_single ?env (''nobody'' @ ''@'' @ ''example.com'') =
           (if (\<exists>dat. response unavailable503 = Some (404, dat) \<or> response unavailable503 = Some (403, dat))
            then \<lparr>status = 404,
                  body = ErrorBody (''Mastodon account '' @ (''nobody'' @ ''@'' @ ''example.com'')
                           @ '' not found, suspended, or instance unavailable'')\<rparr>
            else \<lparr>status = statusOr unavailable503 500,
                  body = ErrorDetailsBody (messageOr unavailable503) (detailsOr unavailable503)\<rparr>,
            [lookupUrl ''example.com'' ''nobody''])"
    and t: "lookupEndpoint ?env (''nobody'' @ ''@'' @ ''example.com'') =
           (\<lparr>status = statusOr unavailable503 404,
             body = ErrorBody (''Mastodon account '' @ (''nobody'' @ ''@'' @ ''example.com'')
                      @ '' not found, suspended, or instance '' @ ''example.com'' @ '' unavailable'')\<rparr>,
            [lookupUrl ''example.com'' ''nobody''])"
    by blast+
  show ?thesis
    using usernameOk_nobody domainOk_example_com up r m s t
    by (simp add: v w nobody_example_url)
qed

text \<open>
  In the multi-instance entry point a timeout on a full handle is answered with status
  404, and an upstream 403 with status 403.
\<close>

theorem C6_full_handle_timeout_counterexample:
  "lookupEndpoint (exampleEnv\<lparr>upstream := \<lambda>url. Rejected timeoutError\<rparr>) ''nobody@example.com'' =
     (\<lparr>status = 404,
       body = ErrorBody ''Mastodon account nobody@example.com not found, suspended, or instance example.com unavailable''\<rparr>,
      [''https://example.com/api/v1/accounts/lookup?acct=nobody''])
   \<and> response timeoutError = None
   \<and> lookupEndpoint (exampleEnv\<lparr>upstream := \<lambda>url. Rejected forbidden403\<rparr>) ''nobody@example.com'' =
     (\<lparr>status = 403,
       body = ErrorBody ''Mastodon account nobody@example.com not found, suspended, or instance example.com unavailable''\<rparr>,
      [''https://example.com/api/v1/accounts/lookup?acct=nobody''])
   \<and> response forbidden403 = Some (403, Data ''Forbidden'')"
proof -
  have "lookupEndpoint (exampleEnv\<lparr>upstream := \<lambda>url. Rejected e\<rparr>) (''nobody'' @ ''@'' @ ''example.com'') =
          (\<lparr>status = statusOr e 404,
            body = ErrorBody (''Mastodon account '' @ (''nobody'' @ ''@'' @ ''example.com'')
                     @ '' not found, suspended, or instance '' @ ''example.com'' @ '' unavailable'')\<rparr>,
           [lookupUrl ''example.com'' ''nobody''])" for e
    using lookupEndpoint_full [OF usernameOk_nobody domainOk_example_com,
        of "exampleEnv\<lparr>upstream := \<lambda>url. Rejected e\<rparr>"]
    by simp
  from this [of timeoutError] this [of forbidden403] show ?thesis
    by (simp add: nobody_example_url statusOr_def timeoutError_def forbidden403_def)
qed


section \<open>No instance knows the username\<close>

text \<open>
  C2. What the multi-instance entry point answers to a bare username that no configured
  instance knows: the error message lists every configured instance, and the status is
  500, the status of the route's \<open>catch\<close> block.
\<close>

theorem C2_zero_successes_response:
  assumes "usernameOk h" and "filter isSuccess (lookupResults env h) = []"
  shows "lookupEndpoint env h =
           (\<lparr>status = 500,
             body = ErrorDetailsBody
                      (''No account found for '' @ h @ '' on instances: ''
                         @ join '', '' (instances env))
                      (''Searched instances: '' @ join '', '' (instances env))\<rparr>,
            map (\<lambda>i. lookupUrl i h) (instances env))"
  using lookupEndpoint_username [OF assms(1), of env] assms(2)
  by (simp add: serverError_def newError_def messageOr_def)

lemma nobody_results:
  "lookupResults exampleEnv ''nobody'' =
     [Failed notFound404 ''mastodon.social'', Failed notFound404 ''fosstodon.org'',
      Failed notFound404 ''mstdn.social'']"
  by (simp add: lookupResults_def fetch_fst exampleEnv_def url_eval)

theorem C2_zero_successes_response_witness:
  "usernameOk ''nobody'' \<and> filter isSuccess (lookupResults exampleEnv ''nobody'') = []
   \<and> lookupEndpoint exampleEnv ''nobody'' =
       (\<lparr>status = 500,
         body = ErrorDetailsBody
                  ''No account found for nobody on instances: mastodon.social, fosstodon.org, mstdn.social''
                  ''Searched instances: mastodon.social, fosstodon.org, mstdn.social''\<rparr>,
        [''https://mastodon.social/api/v1/accounts/lookup?acct=nobody'',
         ''https://fosstodon.org/api/v1/accounts/lookup?acct=nobody'',
         ''https://mstdn.social/api/v1/accounts/lookup?acct=nobody''])"
proof -
  have z: "filter isSuccess (lookupResults exampleEnv ''nobody'') = []"
    by (simp add: nobody_results isSuccess_def)
  have i: "instances exampleEnv = [''mastodon.social'', ''fosstodon.org'', ''mstdn.social'']"
    by (simp add: exampleEnv_def)
  from C2_zero_successes_response [OF usernameOk_nobody z] usernameOk_nobody z
  show ?thesis by (simp add: i url_eval)
qed


section \<open>One or several matches\<close>

lemma isVal_iff: "isVal v \<longleftrightarrow> (\<exists>x. v = Val x)"
  by (cases v) (simp_all add: isVal_def)

lemma processProfileData_wellFormed:
  assumes "wellFormed r"
  shows "\<exists>doc. processProfileData env k (dataOf r) (instanceOf r) = Inr doc
           \<and> estimation_confidence doc = ''High (exact server timestamp)''
           \<and> instance_used doc = Val (instanceOf r)"
proof -
  from assms obtain p n m s where p: "dataOf r = Val p" "raw_followers_count p = Val n"
      "raw_statuses_count p = Val m" "raw_note p = Val s"
    by (auto simp: wellFormed_def isVal_iff split: jsopt.splits)
  from profileDocument_total [OF p(2,3,4)] obtain doc
    where d: "profileDocument env k p (instanceOf r) (Val (instanceOf r)) = Inr doc" by blast
  from profileDocument_Inr [OF d] d p(1) show ?thesis
    by (auto simp: processProfileData_def)
qed

lemma processAll_wellFormed:
  assumes "\<forall>r\<in>set rs. wellFormed r"
  shows "\<exists>docs. processAll env k rs = Inr docs \<and> length docs = length rs
           \<and> (\<forall>d\<in>set docs. estimation_confidence d = ''Medium (multiple instances found)'')
           \<and> map instance_used docs = map (\<lambda>r. Val (instanceOf r)) rs
           \<and> (\<forall>i<length rs. \<exists>doc.
                 processProfileData env (k + 2 * i) (dataOf (rs ! i)) (instanceOf (rs ! i)) = Inr doc
                 \<and> docs ! i = doc\<lparr>estimation_confidence := ''Medium (multiple instances found)''\<rparr>)"
  using assms
proof (induction rs arbitrary: k)
  case Nil
  show ?case by simp
next
  case (Cons r rs)
  from Cons.prems have "wellFormed r" and rest: "\<forall>r\<in>set rs. wellFormed r" by simp_all
  from processProfileData_wellFormed [OF this(1), of env k] obtain doc
    where doc: "processProfileData env k (dataOf r) (instanceOf r) = Inr doc"
      "instance_used doc = Val (instanceOf r)"
    by blast
  from Cons.IH [OF rest, of "k + 2"] obtain docs
    where docs: "processAll env (k + 2) rs = Inr docs" "length docs = length rs"
      "\<forall>d\<in>set docs. estimation_confidence d = ''Medium (multiple instances found)''"
      "map instance_used docs = map (\<lambda>r. Val (instanceOf r)) rs"
      "\<forall>i<length rs. \<exists>doc.
          processProfileData env (k + 2 + 2 * i) (dataOf (rs ! i)) (instanceOf (rs ! i)) = Inr doc
          \<and> docs ! i = doc\<lparr>estimation_confidence := ''Medium (multiple instances found)''\<rparr>"
    by blast
  let ?d = "doc\<lparr>estimation_confidence := ''Medium (multiple instances found)''\<rparr>"
  have all: "processAll env k (r # rs) = Inr (?d # docs)"
    using doc(1) docs(1) by simp
  have idx: "\<exists>doc'. processProfileData env (k + 2 * i) (dataOf ((r # rs) ! i)) (instanceOf ((r # rs) ! i)) = Inr doc'
               \<and> (?d # docs) ! i = doc'\<lparr>estimation_confidence := ''Medium (multiple instances found)''\<rparr>"
    if "i < length (r # rs)" for i
  proof (cases i)
    case 0
    with doc(1) show ?thesis by simp
  next
    case (Suc j)
    with that have "j < length rs" by simp
    with docs(5) obtain doc' where
      "processProfileData env (k + 2 + 2 * j) (dataOf (rs ! j)) (instanceOf (rs ! j)) = Inr doc'"
      "docs ! j = doc'\<lparr>estimation_confidence := ''Medium (multiple instances found)''\<rparr>"
      by blast
    moreover have "k + 2 + 2 * j = k + 2 * i" using Suc by simp
    ultimately show ?thesis using Suc by auto
  qed
  have "length (?d # docs) = length (r # rs)" using docs(2) by simp
  moreover have "\<forall>d\<in>set (?d # docs). estimation_confidence d = ''Medium (multiple instances found)''"
    using docs(3) by simp
  moreover have "map instance_used (?d # docs) = map (\<lambda>r. Val (instanceOf r)) (r # rs)"
    using docs(4) doc(2) by simp
  ultimately show ?case using all idx by blast
qed


text \<open>
  C5. A bare username found on more than one configured instance (each profile carrying
  its counts and bio) is answered with status 200 and a body \<open>{users, note}\<close> holding one
  formatted profile per successful instance, in order, each with \<open>estimation_confidence\<close>
  set to \<open>Medium (multiple instances found)\<close>; found on exactly one instance, it is
  answered with that instance's formatted profile, the confidence left at \<open>High\<close>.
\<close>

theorem C5_multiple_matches_shape:
  assumes "usernameOk h" and "succ = filter isSuccess (lookupResults env h)"
    and "\<forall>r\<in>set succ. wellFormed r"
  shows "(1 < length succ \<longrightarrow>
           (\<exists>docs. fst (lookupEndpoint env h) =
                     \<lparr>status = 200,
                      body = UsersBody docs
                        (''Multiple accounts found for '' @ h
                           @ ''. Use instance_used or profile_link to select the correct account.'')\<rparr>
                  \<and> length docs = length succ
                  \<and> map instance_used docs = map (\<lambda>r. Val (instanceOf r)) succ
                  \<and> (\<forall>d\<in>set docs. estimation_confidence d = ''Medium (multiple instances found)'')
                  \<and> (\<forall>i<length succ. \<exists>doc.
                        processProfileData env (2 * i) (dataOf (succ ! i)) (instanceOf (succ ! i)) = Inr doc
                        \<and> docs ! i = doc\<lparr>estimation_confidence := ''Medium (multiple instances found)''\<rparr>)))
         \<and> (length succ = 1 \<longrightarrow>
           (\<exists>doc. fst (lookupEndpoint env h) = \<lparr>status = 200, body = ProfileBody doc\<rparr>
                 \<and> processProfileData env 0 (dataOf (hd succ)) (instanceOf (hd succ)) = Inr doc
                 \<and> instance_used doc = Val (instanceOf (hd succ))
                 \<and> estimation_confidence doc = ''High (exact server timestamp)''))"
proof (intro conjI impI)
  assume many: "1 < length succ"
  then have ne: "succ \<noteq> []" by auto
  from processAll_wellFormed [OF assms(3), of env 0] obtain docs
    where docs: "processAll env 0 succ = Inr docs" "length docs = length succ"
      "\<forall>d\<in>set docs. estimation_confidence d = ''Medium (multiple instances found)''"
      "map instance_used docs = map (\<lambda>r. Val (instanceOf r)) succ"
      "\<forall>i<length succ. \<exists>doc.
          processProfileData env (0 + 2 * i) (dataOf (succ ! i)) (instanceOf (succ ! i)) = Inr doc
          \<and> docs ! i = doc\<lparr>estimation_confidence := ''Medium (multiple instances found)''\<rparr>"
    by blast
  have "fst (lookupEndpoint env h) =
          \<lparr>status = 200,
           body = UsersBody docs
             (''Multiple accounts found for '' @ h
                @ ''. Use instance_used or profile_link to select the correct account.'')\<rparr>"
    using lookupEndpoint_username [OF assms(1), of env] many ne docs(1)
    by (simp add: assms(2) [symmetric] Let_def)
  with docs(2,3,4,5) show "\<exists>docs. fst (lookupEndpoint env h) =
                     \<lparr>status = 200,
                      body = UsersBody docs
                        (''Multiple accounts found for '' @ h
                           @ ''. Use instance_used or profile_link to select the correct account.'')\<rparr>
                  \<and> length docs = length succ
                  \<and> map instance_used docs = map (\<lambda>r. Val (instanceOf r)) succ
                  \<and> (\<forall>d\<in>set docs. estimation_confidence d = ''Medium (multiple instances found)'')
                  \<and> (\<forall>i<length succ. \<exists>doc.
                        processProfileData env (2 * i) (dataOf (succ ! i)) (instanceOf (succ ! i)) = Inr doc
                        \<and> docs ! i = doc\<lparr>estimation_confidence := ''Medium (multiple instances found)''\<rparr>)"
    by auto
next
  assume one: "length succ = 1"
  then obtain r where r: "succ = [r]" by (cases succ) auto
  with assms(3) have "wellFormed r" by simp
  from processProfileData_wellFormed [OF this, of env 0] obtain doc
    where doc: "processProfileData env 0 (dataOf r) (instanceOf r) = Inr doc"
      "estimation_confidence doc = ''High (exact server timestamp)''"
      "instance_used doc = Val (instanceOf r)"
    by blast
  have "fst (lookupEndpoint env h) = \<lparr>status = 200, body = ProfileBody doc\<rparr>"
    using lookupEndpoint_username [OF assms(1), of env] r doc(1)
    by (simp add: assms(2) [symmetric] Let_def singleProfile_def)
  with doc r show "\<exists>doc. fst (lookupEndpoint env h) = \<lparr>status = 200, body = ProfileBody doc\<rparr>
                 \<and> processProfileData env 0 (dataOf (hd succ)) (instanceOf (hd succ)) = Inr doc
                 \<and> instance_used doc = Val (instanceOf (hd succ))
                 \<and> estimation_confidence doc = ''High (exact server timestamp)''"
    by auto
qed

lemma exampleEnv2_results:
  "lookupResults exampleEnv2 ''Gargron'' =
     [Found (Val exampleProfile) ''mastodon.social'', Failed notFound404 ''fosstodon.org'',
      Found (Val exampleProfile) ''mstdn.social'']"
  by (simp add: lookupResults_def fetch_fst exampleEnv2_def exampleEnv_def url_eval)

lemma exampleProfile_success: "isSuccess (Found (Val exampleProfile) i) \<and> wellFormed (Found (Val exampleProfile) i)"
  by (simp add: isSuccess_def wellFormed_def dataOf_def isVal_def truthyStr_def exampleProfile_def)

theorem C5_multiple_matches_shape_witness:
  "usernameOk ''Gargron''
   \<and> filter isSuccess (lookupResults exampleEnv2 ''Gargron'') =
        [Found (Val exampleProfile) ''mastodon.social'', Found (Val exampleProfile) ''mstdn.social'']
   \<and> wellFormed (Found (Val exampleProfile) ''mastodon.social'')
   \<and> wellFormed (Found (Val exampleProfile) ''mstdn.social'')
   \<and> (\<exists>docs. fst (lookupEndpoint exampleEnv2 ''Gargron'') =
                \<lparr>status = 200,
                 body = UsersBody docs
                   ''Multiple accounts found for Gargron. Use instance_used or profile_link to select the correct account.''\<rparr>
             \<and> length docs = 2
             \<and> map instance_used docs = [Val ''mastodon.social'', Val ''mstdn.social'']
             \<and> map estimation_confidence docs =
                 [''Medium (multiple instances found)'', ''Medium (multiple instances found)''])
   \<and> filter isSuccess (lookupResults exampleEnv ''Gargron'') = [Found (Val exampleProfile) ''mastodon.social'']
   \<and> (\<exists>doc. fst (lookupEndpoint exampleEnv ''Gargron'') = \<lparr>status = 200, body = ProfileBody doc\<rparr>
            \<and> instance_used doc = Val ''mastodon.social''
            \<and> estimation_confidence doc = ''High (exact server timestamp)'')"
proof -
  let ?a = "Found (Val exampleProfile) ''mastodon.social''"
  let ?b = "Found (Val exampleProfile) ''mstdn.social''"
  have two: "[?a, ?b] = filter isSuccess (lookupResults exampleEnv2 ''Gargron'')"
    by (simp add: exampleEnv2_results exampleProfile_success) (simp add: isSuccess_def)
  have one: "[?a] = filter isSuccess (lookupResults exampleEnv ''Gargron'')"
    by (simp add: exampleEnv_results exampleProfile_success) (simp add: isSuccess_def)
  have wf2: "\<forall>r\<in>set [?a, ?b]. wellFormed r" and wf1: "\<forall>r\<in>set [?a]. wellFormed r"
    by (simp_all add: exampleProfile_success)
  from C5_multiple_matches_shape [OF usernameOk_Gargron two wf2]
  obtain docs where docs: "fst (lookupEndpoint exampleEnv2 ''Gargron'') =
                \<lparr>status = 200,
                 body = UsersBody docs
                   (''Multiple accounts found for '' @ ''Gargron''
                      @ ''. Use instance_used or profile_link to select the correct account.'')\<rparr>"
      "length docs = length [?a, ?b]"
      "map instance_used docs = map (\<lambda>r. Val (instanceOf r)) [?a, ?b]"
      "\<forall>d\<in>set docs. estimation_confidence d = ''Medium (multiple instances found)''"
    by auto
  from docs(2) obtain d1 d2 where d12: "docs = [d1, d2]"
    by (cases docs; cases "tl docs"; cases "tl (tl docs)") auto
  from C5_multiple_matches_shape [OF usernameOk_Gargron one wf1]
  obtain doc where doc: "fst (lookupEndpoint exampleEnv ''Gargron'') = \<lparr>status = 200, body = ProfileBody doc\<rparr>"
      "instance_used doc = Val (instanceOf (hd [?a]))"
      "estimation_confidence doc = ''High (exact server timestamp)''"
    by auto
  have m: "\<exists>docs. fst (lookupEndpoint exampleEnv2 ''Gargron'') =
                \<lparr>status = 200,
                 body = UsersBody docs
                   ''Multiple accounts found for Gargron. Use instance_used or profile_link to select the correct account.''\<rparr>
             \<and> length docs = 2
             \<and> map instance_used docs = [Val ''mastodon.social'', Val ''mstdn.social'']
             \<and> map estimation_confidence docs =
                 [''Medium (multiple instances found)'', ''Medium (multiple instances found)'']"
    using docs d12 by (intro exI [of _ docs]) (simp add: instanceOf_def)
  have s: "\<exists>doc. fst (lookupEndpoint exampleEnv ''Gargron'') = \<lparr>status = 200, body = ProfileBody doc\<rparr>
            \<and> instance_used doc = Val ''mastodon.social''
            \<and> estimation_confidence doc = ''High (exact server timestamp)''"
    using doc by (intro exI [of _ doc]) (simp add: instanceOf_def)
  show ?thesis
    using usernameOk_Gargron two [symmetric] one [symmetric] exampleProfile_success m s by blast
qed

end
